theory Spec2Isabelle
  imports Complex_Main "HOL-Library.Code_Target_Numeral"
begin

section \<open>Data model (types.ts)\<close>

text \<open>
  JavaScript numbers are IEEE doubles. A finite double is the rational it denotes,
  and every operation of the source rounds its exact result to a double (\<open>fl\<close>
  below). The profit fields only ever hold finite values: they start from constants
  and the tick adds less than 8 in magnitude, which is far below half the spacing
  of the largest doubles, so that no sum, quotient or product of the tick leaves
  the finite range. They are of type \<open>rat\<close>. The values that come out of
  \<open>parseFloat\<close> can also be \<open>NaN\<close> and the two infinities, so the fields fed
  from a form are of type \<open>number\<close>.
\<close>

datatype number = NaN | Finite rat | PosInfinity | NegInfinity

record bot_alert_settings =
  pnlDropThreshold :: number
  maxDowntimeMinutes :: number
  notifyOnTradeFailure :: bool

datatype alert_type = PNL | DOWNTIME | FAILURE

datatype alert_severity = WARNING | CRITICAL

record active_alert =
  alert_id :: string
  alert_type :: alert_type
  message :: string
  severity :: alert_severity
  alert_timestamp :: string

datatype entry_type = TRADE | STATUS_CHANGE | ALERT | INFO

record bot_history_entry =
  entry_id :: string
  entry_timestamp :: string
  entry_type :: entry_type
  entry_title :: string
  entry_description :: string
  entry_profit :: "rat option"

datatype bot_status = RUNNING | PAUSED | STOPPED

record trading_bot =
  bot_id :: string
  name :: string
  status :: bot_status
  pnl :: rat
  pnlPercent :: rat
  uptime :: string
  trades :: nat
  lastTrade :: string
  alertSettings :: bot_alert_settings
  activeAlerts :: "active_alert list"
  targetPnl :: "number option"
  strategyCode :: "string option"
  history :: "bot_history_entry list"

datatype tab_view = DASHBOARD | STRATEGY | BOTS | DATA | SETTINGS

text \<open>
  \<open>Partial<TradingBot>\<close>: every key may be absent (\<open>None\<close>); a key that is
  present carries a value of the field's type.
\<close>

record bot_updates =
  u_id :: "string option"
  u_name :: "string option"
  u_status :: "bot_status option"
  u_pnl :: "rat option"
  u_pnlPercent :: "rat option"
  u_uptime :: "string option"
  u_trades :: "nat option"
  u_lastTrade :: "string option"
  u_alertSettings :: "bot_alert_settings option"
  u_activeAlerts :: "active_alert list option"
  u_targetPnl :: "number option"
  u_strategyCode :: "string option"
  u_history :: "bot_history_entry list option"

definition no_updates :: bot_updates where
  "no_updates = \<lparr>u_id = None, u_name = None, u_status = None, u_pnl = None,
     u_pnlPercent = None, u_uptime = None, u_trades = None, u_lastTrade = None,
     u_alertSettings = None, u_activeAlerts = None, u_targetPnl = None,
     u_strategyCode = None, u_history = None\<rparr>"

section \<open>Numbers and strings of the platform\<close>

subsection \<open>Rounding to a double\<close>

text \<open>
  The binary exponent of a positive number, counted from \<open>e\<close>: the \<open>k\<close> with
  \<open>2^k \<le> x < 2^(k+1)\<close>, but not below \<open>-1022\<close>, the exponent of the smallest
  normal doubles, which the subnormal ones share.
\<close>

function binade :: "rat \<Rightarrow> int \<Rightarrow> int" where
  "binade x e =
     (if 2 \<le> x then binade (x / 2) (e + 1)
      else if 0 < x \<and> x < 1 \<and> - 1022 < e then binade (x * 2) (e - 1)
      else e)"
  by pat_completeness auto
termination
proof (relation "measures [\<lambda>(x, e). nat \<lfloor>x / 2\<rfloor>, \<lambda>(x, e). nat (e + 1022)]")
  show "wf (measures [\<lambda>(x :: rat, e). nat \<lfloor>x / 2\<rfloor>, \<lambda>(x, e). nat (e + 1022)])" by simp
next
  fix x :: rat and e :: int
  assume "2 \<le> x"
  then have one: "1 \<le> \<lfloor>x / 2\<rfloor>" by (simp add: le_floor_iff)
  then have "(1::rat) \<le> of_int \<lfloor>x / 2\<rfloor>" by linarith
  moreover have "x / 2 < of_int \<lfloor>x / 2\<rfloor> + 1" by linarith
  ultimately have "x / 2 / 2 < of_int \<lfloor>x / 2\<rfloor>" by linarith
  then have "\<lfloor>x / 2 / 2\<rfloor> < \<lfloor>x / 2\<rfloor>" by (simp only: floor_less_iff)
  with one show "((x / 2, e + 1), (x, e))
      \<in> measures [\<lambda>(x, e). nat \<lfloor>x / 2\<rfloor>, \<lambda>(x, e). nat (e + 1022)]"
    by simp
next
  fix x :: rat and e :: int
  assume "\<not> 2 \<le> x" and h: "0 < x \<and> x < 1 \<and> - 1022 < e"
  then show "((x * 2, e - 1), (x, e))
      \<in> measures [\<lambda>(x, e). nat \<lfloor>x / 2\<rfloor>, \<lambda>(x, e). nat (e + 1022)]"
    by simp
qed

declare binade.simps [simp del]

text \<open>The nearest integer, the even one of the two on a tie.\<close>

definition roundHalfEven :: "rat \<Rightarrow> int" where
  "roundHalfEven y =
     (let n = \<lfloor>y\<rfloor>; r = y - of_int n
      in if r < 1 / 2 then n
         else if 1 / 2 < r then n + 1
         else if even n then n else n + 1)"

text \<open>
  Rounding to the nearest double, ties to the even significand: in the binade of
  exponent \<open>k\<close> the doubles are the multiples of \<open>2^(k-52)\<close>. The exponent is not
  bounded from above here; what reaches \<open>2^1024\<close> is an overflow (see
  \<open>numberValue\<close>).
\<close>

definition fl :: "rat \<Rightarrow> rat" where
  "fl x =
     (if x = 0 then 0
      else (let q = 2 powi (binade \<bar>x\<bar> 0 - 52)
            in sgn x * (of_int (roundHalfEven (\<bar>x\<bar> / q)) * q)))"

text \<open>
  The Number value of a mathematical value: the rounding of a value that is at
  least half a spacing above the largest double, \<open>2^1024 - 2^970\<close>, is an
  infinity.
\<close>

definition numberValue :: "rat \<Rightarrow> number" where
  "numberValue x =
     (if 2 ^ 1024 - 2 ^ 970 \<le> \<bar>x\<bar> then (if x < 0 then NegInfinity else PosInfinity)
      else Finite (fl x))"

text \<open>
  \<open>Number(x.toFixed(2))\<close>: \<open>toFixed\<close> prints the sign and then, for a magnitude
  below \<open>10^21\<close>, the integer \<open>n\<close> with \<open>n / 100\<close> nearest to the magnitude, the
  larger one on a tie; \<open>Number\<close> reads the decimal back as the nearest double.
  From \<open>10^21\<close> on \<open>toFixed\<close> prints the number itself.
\<close>

definition toFixed2 :: "rat \<Rightarrow> rat" where
  "toFixed2 x =
     (if 10 ^ 21 \<le> \<bar>x\<bar> then x
      else fl (sgn x * (of_int \<lfloor>\<bar>x\<bar> * 100 + 1 / 2\<rfloor> / 100)))"

definition digit_char :: "nat \<Rightarrow> char" where
  "digit_char d = ''0123456789'' ! d"

text \<open>\<open>Date.now().toString()\<close>: the decimal digits of a non-negative integer.\<close>

fun toString_nat :: "nat \<Rightarrow> string" where
  "toString_nat n =
     (if n < 10 then [digit_char n]
      else toString_nat (n div 10) @ [digit_char (n mod 10)])"

declare toString_nat.simps [simp del]

text \<open>
  \<open>Math.random()\<close>: the generator is the sequence of the draws still to come
  (doubles from 0 up to 1, 1 excluded); a draw takes the first and leaves the rest.
\<close>

type_synonym rng = "nat \<Rightarrow> rat"

definition random :: "rng \<Rightarrow> rat \<times> rng" where
  "random g = (g 0, \<lambda>n. g (Suc n))"

subsection \<open>Strings\<close>

text \<open>
  Strings are sequences of 8-bit characters here; of the white space that \<open>trim\<close>
  and \<open>parseFloat\<close> strip, the characters below \<open>0x100\<close> are tab, line feed,
  vertical tab, form feed, carriage return, space and the no-break space.
\<close>

definition isWhiteSpace :: "char \<Rightarrow> bool" where
  "isWhiteSpace c \<longleftrightarrow>
     c \<in> set [CHR 0x09, CHR 0x0A, CHR 0x0B, CHR 0x0C, CHR 0x0D, CHR 0x20, CHR 0xA0]"

definition trim :: "string \<Rightarrow> string" where
  "trim s = rev (dropWhile isWhiteSpace (rev (dropWhile isWhiteSpace s)))"

text \<open>
  \<open>toLowerCase\<close>: below \<open>0x100\<close> the characters with a lower case are the
  letters A to Z and the letters from \<open>0xC0\<close> to \<open>0xDE\<close> (\<open>0xD7\<close>, the
  multiplication sign, is not one); every other character stays.
\<close>

definition upperCaseChars :: "char list" where
  "upperCaseChars =
     ''ABCDEFGHIJKLMNOPQRSTUVWXYZ'' @
     [CHR 0xC0, CHR 0xC1, CHR 0xC2, CHR 0xC3, CHR 0xC4, CHR 0xC5, CHR 0xC6, CHR 0xC7,
      CHR 0xC8, CHR 0xC9, CHR 0xCA, CHR 0xCB, CHR 0xCC, CHR 0xCD, CHR 0xCE, CHR 0xCF,
      CHR 0xD0, CHR 0xD1, CHR 0xD2, CHR 0xD3, CHR 0xD4, CHR 0xD5, CHR 0xD6,
      CHR 0xD8, CHR 0xD9, CHR 0xDA, CHR 0xDB, CHR 0xDC, CHR 0xDD, CHR 0xDE]"

definition lowerCaseChars :: "char list" where
  "lowerCaseChars =
     ''abcdefghijklmnopqrstuvwxyz'' @
     [CHR 0xE0, CHR 0xE1, CHR 0xE2, CHR 0xE3, CHR 0xE4, CHR 0xE5, CHR 0xE6, CHR 0xE7,
      CHR 0xE8, CHR 0xE9, CHR 0xEA, CHR 0xEB, CHR 0xEC, CHR 0xED, CHR 0xEE, CHR 0xEF,
      CHR 0xF0, CHR 0xF1, CHR 0xF2, CHR 0xF3, CHR 0xF4, CHR 0xF5, CHR 0xF6,
      CHR 0xF8, CHR 0xF9, CHR 0xFA, CHR 0xFB, CHR 0xFC, CHR 0xFD, CHR 0xFE]"

definition toLowerChar :: "char \<Rightarrow> char" where
  "toLowerChar c =
     (case map_of (zip upperCaseChars lowerCaseChars) c of
        Some l \<Rightarrow> l
      | None \<Rightarrow> c)"

definition toLowerCase :: "string \<Rightarrow> string" where
  "toLowerCase s = map toLowerChar s"

text \<open>\<open>s.includes(q)\<close>: \<open>q\<close> occurs in \<open>s\<close> as a contiguous piece.\<close>

fun includes_str :: "string \<Rightarrow> string \<Rightarrow> bool" where
  "includes_str [] q = (q = [])"
| "includes_str (c # cs) q = (take (length q) (c # cs) = q \<or> includes_str cs q)"

definition isDigit :: "char \<Rightarrow> bool" where
  "isDigit c \<longleftrightarrow> c \<in> set ''0123456789''"

definition digit_val :: "char \<Rightarrow> nat" where
  "digit_val c = length (takeWhile (\<lambda>d. d \<noteq> c) ''0123456789'')"

text \<open>The value of a string of decimal digits (\<open>parseInt\<close> on such a string).\<close>

definition digits_val :: "string \<Rightarrow> nat" where
  "digits_val ds = foldl (\<lambda>a c. 10 * a + digit_val c) 0 ds"

subsection \<open>parseFloat\<close>

text \<open>
  The exponent part \<open>e\<close>, an optional sign, digits: the power of ten to multiply with,
  or \<open>1\<close> where the text does not start with a complete exponent part.
\<close>

definition exponentPart :: "string \<Rightarrow> rat" where
  "exponentPart r =
     (case r of
        [] \<Rightarrow> 1
      | e # r' \<Rightarrow>
          if e = CHR ''e'' \<or> e = CHR ''E'' then
            (case r' of
               [] \<Rightarrow> 1
             | c # r'' \<Rightarrow>
                 if c = CHR ''-'' then
                   (if takeWhile isDigit r'' = [] then 1
                    else 1 / 10 ^ digits_val (takeWhile isDigit r''))
                 else if c = CHR ''+'' then
                   (if takeWhile isDigit r'' = [] then 1
                    else 10 ^ digits_val (takeWhile isDigit r''))
                 else
                   (if takeWhile isDigit r' = [] then 1
                    else 10 ^ digits_val (takeWhile isDigit r')))
          else 1)"

text \<open>
  The longest prefix that is an unsigned decimal literal other than \<open>Infinity\<close>:
  digits, then optionally a point and digits, then optionally an exponent part; or a
  point, digits, and optionally an exponent part. \<open>None\<close> when there is no such prefix.
\<close>

definition unsignedDecimal :: "string \<Rightarrow> rat option" where
  "unsignedDecimal u =
     (let ip = takeWhile isDigit u;
          r1 = dropWhile isDigit u
      in case r1 of
           [] \<Rightarrow> (if ip = [] then None else Some (of_nat (digits_val ip)))
         | c # r \<Rightarrow>
             if c = CHR ''.'' then
               (let fp = takeWhile isDigit r;
                    r2 = dropWhile isDigit r
                in if ip = [] \<and> fp = [] then None
                   else Some ((of_nat (digits_val ip)
                                + of_nat (digits_val fp) / 10 ^ length fp)
                              * exponentPart r2))
             else if ip = [] then None
             else Some (of_nat (digits_val ip) * exponentPart r1))"

text \<open>The text after the leading white space and one sign, if there is a sign.\<close>

definition afterSign :: "string \<Rightarrow> string" where
  "afterSign s =
     (let t = dropWhile isWhiteSpace s
      in if t \<noteq> [] \<and> (hd t = CHR ''-'' \<or> hd t = CHR ''+'') then tl t else t)"

text \<open>
  \<open>parseFloat\<close>: leading white space is dropped, a sign is read, and the longest
  prefix that is a decimal literal gives the mathematical value, which is rounded
  to a double once; \<open>NaN\<close> when there is no such prefix.
\<close>

definition parseFloat :: "string \<Rightarrow> number" where
  "parseFloat s =
     (let t = dropWhile isWhiteSpace s;
          neg = (t \<noteq> [] \<and> hd t = CHR ''-'');
          u = afterSign s
      in if take 8 u = ''Infinity'' then (if neg then NegInfinity else PosInfinity)
         else (case unsignedDecimal u of
                 None \<Rightarrow> NaN
               | Some v \<Rightarrow> numberValue (if neg then - v else v)))"

text \<open>\<open>x || 0\<close> on a number: \<open>NaN\<close> and zero are falsy.\<close>

definition orZero :: "number \<Rightarrow> number" where
  "orZero v = (if v = NaN \<or> v = Finite 0 then Finite 0 else v)"

section \<open>The application state (App)\<close>

subsection \<open>The tick of the simulation\<close>

text \<open>
  The callback of \<open>setInterval\<close> for one bot. The draws are taken in the order of
  the source: volatility, direction, new trade, and the ageing draw only when there
  is no new trade. \<open>newPnl\<close> and \<open>newPercent\<close> are the two locals of these names,
  as functions of the old PnL and of the first two draws; each operation rounds.
\<close>

definition newPnl :: "rat \<Rightarrow> rat \<Rightarrow> rat \<Rightarrow> rat" where
  "newPnl oldPnl r1 r2 =
     (let volatility = fl (r1 * 8);
          direction = (if r2 > fl (45 / 100) then 1 else - 1);
          change = fl (volatility * direction)
      in fl (oldPnl + change))"

definition newPercent :: "rat \<Rightarrow> rat" where
  "newPercent p = fl (fl (p / 10000) * 100)"

definition tickBot :: "trading_bot \<Rightarrow> rng \<Rightarrow> trading_bot \<times> rng" where
  "tickBot b g0 =
     (if status b = RUNNING then
        (let (r1, g1) = random g0;
             (r2, g2) = random g1;
             (r3, g3) = random g2;
             hasNewTrade = (r3 > fl (95 / 100));
             (lastTradeTime, g4) =
               (if hasNewTrade then (''Just now'', g3)
                else (let (r4, g') = random g3 in
                  if r4 > fl (9 / 10) then
                    (if lastTrade b = ''Just now'' then (''1m ago'', g')
                     else if lastTrade b = ''1m ago'' then (''2m ago'', g')
                     else (lastTrade b, g'))
                  else (lastTrade b, g')))
         in (b\<lparr>pnl := toFixed2 (newPnl (pnl b) r1 r2),
               pnlPercent := toFixed2 (newPercent (newPnl (pnl b) r1 r2)),
               trades := (if hasNewTrade then trades b + 1 else trades b),
               lastTrade := lastTradeTime\<rparr>, g4))
      else (b, g0))"

text \<open>\<open>currentBots.map(...)\<close>: the bots are visited from the front, sharing the generator.\<close>

fun tick :: "trading_bot list \<Rightarrow> rng \<Rightarrow> trading_bot list \<times> rng" where
  "tick [] g = ([], g)"
| "tick (b # rest) g =
     (let (b', g') = tickBot b g;
          (rest', g'') = tick rest g'
      in (b' # rest', g''))"

subsection \<open>The lifecycle handlers\<close>

text \<open>\<open>handleDeployBot\<close>; the reading of the clock \<open>Date.now()\<close> is an input.\<close>

definition newBot :: "nat \<Rightarrow> string \<Rightarrow> string \<Rightarrow> trading_bot" where
  "newBot now strategyName code =
     \<lparr>bot_id = toString_nat now,
      name = strategyName,
      status = RUNNING,
      pnl = 0,
      pnlPercent = 0,
      uptime = ''0m'',
      trades = 0,
      lastTrade = ''Waiting for signal...'',
      alertSettings = \<lparr>pnlDropThreshold = Finite 5,
                       maxDowntimeMinutes = Finite 60,
                       notifyOnTradeFailure = True\<rparr>,
      activeAlerts = [],
      targetPnl = Some (Finite 5000),
      strategyCode = Some code,
      history = []\<rparr>"

definition handleDeployBot ::
  "nat \<Rightarrow> string \<Rightarrow> string \<Rightarrow> string \<Rightarrow> trading_bot list \<Rightarrow> trading_bot list \<times> tab_view" where
  "handleDeployBot now strategyName description code bots =
     (newBot now strategyName code # bots, BOTS)"

definition handleToggleBot :: "string \<Rightarrow> trading_bot list \<Rightarrow> trading_bot list" where
  "handleToggleBot i bots =
     map (\<lambda>b. if bot_id b = i
               then b\<lparr>status := (if status b = RUNNING then PAUSED else RUNNING)\<rparr>
               else b) bots"

definition handleDeleteBot :: "string \<Rightarrow> trading_bot list \<Rightarrow> trading_bot list" where
  "handleDeleteBot i bots = filter (\<lambda>b. bot_id b \<noteq> i) bots"

text \<open>The object spread \<open>{...b, ...updates}\<close>: the keys present in the update win.\<close>

definition spread_updates :: "trading_bot \<Rightarrow> bot_updates \<Rightarrow> trading_bot" where
  "spread_updates b u =
     \<lparr>bot_id = (case u_id u of Some v \<Rightarrow> v | None \<Rightarrow> bot_id b),
      name = (case u_name u of Some v \<Rightarrow> v | None \<Rightarrow> name b),
      status = (case u_status u of Some v \<Rightarrow> v | None \<Rightarrow> status b),
      pnl = (case u_pnl u of Some v \<Rightarrow> v | None \<Rightarrow> pnl b),
      pnlPercent = (case u_pnlPercent u of Some v \<Rightarrow> v | None \<Rightarrow> pnlPercent b),
      uptime = (case u_uptime u of Some v \<Rightarrow> v | None \<Rightarrow> uptime b),
      trades = (case u_trades u of Some v \<Rightarrow> v | None \<Rightarrow> trades b),
      lastTrade = (case u_lastTrade u of Some v \<Rightarrow> v | None \<Rightarrow> lastTrade b),
      alertSettings = (case u_alertSettings u of Some v \<Rightarrow> v | None \<Rightarrow> alertSettings b),
      activeAlerts = (case u_activeAlerts u of Some v \<Rightarrow> v | None \<Rightarrow> activeAlerts b),
      targetPnl = (case u_targetPnl u of Some v \<Rightarrow> Some v | None \<Rightarrow> targetPnl b),
      strategyCode = (case u_strategyCode u of Some v \<Rightarrow> Some v | None \<Rightarrow> strategyCode b),
      history = (case u_history u of Some v \<Rightarrow> v | None \<Rightarrow> history b)\<rparr>"

definition handleUpdateBot :: "string \<Rightarrow> bot_updates \<Rightarrow> trading_bot list \<Rightarrow> trading_bot list" where
  "handleUpdateBot i updates bots =
     map (\<lambda>b. if bot_id b = i then spread_updates b updates else b) bots"

subsection \<open>The initial fleet (constants.ts)\<close>

text \<open>
  Three of the bots of \<open>MOCK_BOTS\<close>, the store the application starts with. Their
  histories come from \<open>generateMockHistory\<close>, which draws them at random, and the
  alerts are stamped with the time of loading; both are parameters. A decimal
  numeral of the source is the double nearest to it.
\<close>

definition SAMPLE_CODE :: string where
  "SAMPLE_CODE =
     [CHR 0x0A] @ ''def on_tick(candle, indicators):'' @
     [CHR 0x0A] @ ''    # Sample Strategy Logic'' @
     [CHR 0x0A] @ ''    if indicators['rsi'] < 30 and candle['close'] > indicators['ma200']:'' @
     [CHR 0x0A] @ ''        return Order(side='BUY', amount=1.0)'' @
     [CHR 0x0A] @ ''    elif indicators['rsi'] > 70:'' @
     [CHR 0x0A] @ ''        return Order(side='SELL', amount=1.0)'' @
     [CHR 0x0A] @ ''    return None'' @
     [CHR 0x0A]"

definition MOCK_BOT_2 :: "bot_history_entry list \<Rightarrow> string \<Rightarrow> trading_bot" where
  "MOCK_BOT_2 hist loaded =
     \<lparr>bot_id = ''2'',
      name = ''RSI Mean Reversion - ETH'',
      status = PAUSED,
      pnl = fl (- 4520 / 100),
      pnlPercent = fl (- 8 / 10),
      uptime = ''1d 4h'',
      trades = 5,
      lastTrade = ''1d ago'',
      alertSettings = \<lparr>pnlDropThreshold = Finite 10,
                       maxDowntimeMinutes = Finite 30,
                       notifyOnTradeFailure = True\<rparr>,
      activeAlerts =
        [\<lparr>alert_id = ''a1'', alert_type = DOWNTIME,
          message = ''Bot unresponsive for 45 mins'',
          severity = WARNING, alert_timestamp = loaded\<rparr>],
      targetPnl = Some (Finite 2000),
      strategyCode = Some (''class RSIStrategy:'' @
        [CHR 0x0A] @ ''    def next(self, rsi):'' @
        [CHR 0x0A] @ ''        if rsi < 30:'' @
        [CHR 0x0A] @ ''            self.buy(size=0.1)'' @
        [CHR 0x0A] @ ''        elif rsi > 70:'' @
        [CHR 0x0A] @ ''            self.close_position()'' @
        [CHR 0x0A]),
      history = hist\<rparr>"

definition MOCK_BOT_4 :: "bot_history_entry list \<Rightarrow> string \<Rightarrow> trading_bot" where
  "MOCK_BOT_4 hist loaded =
     \<lparr>bot_id = ''4'',
      name = ''VWAP Scalper - BTC'',
      status = STOPPED,
      pnl = fl (- 12050 / 100),
      pnlPercent = fl (- 21 / 10),
      uptime = ''12h 30m'',
      trades = 8,
      lastTrade = ''5h ago'',
      alertSettings = \<lparr>pnlDropThreshold = Finite 3,
                       maxDowntimeMinutes = Finite 15,
                       notifyOnTradeFailure = True\<rparr>,
      activeAlerts =
        [\<lparr>alert_id = ''a2'', alert_type = FAILURE,
          message = ''API Rate Limit Exceeded'',
          severity = CRITICAL, alert_timestamp = loaded\<rparr>],
      targetPnl = Some (Finite 1000),
      strategyCode = Some SAMPLE_CODE,
      history = hist\<rparr>"

definition MOCK_BOT_10 :: "bot_history_entry list \<Rightarrow> string \<Rightarrow> trading_bot" where
  "MOCK_BOT_10 hist loaded =
     \<lparr>bot_id = ''10'',
      name = ''Whale Watcher AI - XRP'',
      status = STOPPED,
      pnl = fl (- 5025 / 100),
      pnlPercent = - 1,
      uptime = ''1d 0h'',
      trades = 3,
      lastTrade = ''1d ago'',
      alertSettings = \<lparr>pnlDropThreshold = Finite 5,
                       maxDowntimeMinutes = Finite 60,
                       notifyOnTradeFailure = True\<rparr>,
      activeAlerts =
        [\<lparr>alert_id = ''a3'', alert_type = PNL,
          message = ''Drawdown limit reached'',
          severity = WARNING, alert_timestamp = loaded\<rparr>],
      targetPnl = Some (Finite 2500),
      strategyCode = Some SAMPLE_CODE,
      history = hist\<rparr>"

section \<open>The fleet view (BotDashboard)\<close>

record alert_form =
  form_id :: string
  form_pnlDropThreshold :: string
  form_maxDowntimeMinutes :: string
  form_notifyOnTradeFailure :: bool
  form_targetPnl :: string

datatype status_filter = FILTER_ALL | Only bot_status

datatype sort_by = BY_NAME | BY_PNL | BY_UPTIME

text \<open>The local state of the component; \<open>null\<close> is \<open>None\<close>.\<close>

record dashboard =
  statusFilter :: status_filter
  searchQuery :: string
  sortBy :: sort_by
  alertForm :: "alert_form option"
  historyBotId :: "string option"
  editingNameId :: "string option"
  tempName :: string

text \<open>The state the component starts with (the arguments of \<open>useState\<close>).\<close>

definition initial_dashboard :: dashboard where
  "initial_dashboard =
     \<lparr>statusFilter = FILTER_ALL, searchQuery = [], sortBy = BY_PNL, alertForm = None,
      historyBotId = None, editingNameId = None, tempName = []\<rparr>"

subsection \<open>Reading alerts and history\<close>

record annotated_alert = active_alert +
  botName :: string

text \<open>
  \<open>allActiveAlerts\<close>: the stored alerts of every bot, each with the name of its bot
  added (\<open>{...a, botName: b.name}\<close>).
\<close>

definition allActiveAlerts :: "trading_bot list \<Rightarrow> annotated_alert list" where
  "allActiveAlerts bots =
     concat (map (\<lambda>b. map (\<lambda>a. active_alert.extend a (annotated_alert.fields (name b)))
                          (activeAlerts b)) bots)"

text \<open>\<open>historyBot\<close>: the first bot with the selected identifier, or \<open>null\<close>.\<close>

definition historyBot :: "dashboard \<Rightarrow> trading_bot list \<Rightarrow> trading_bot option" where
  "historyBot d bots =
     (case historyBotId d of
        None \<Rightarrow> None
      | Some i \<Rightarrow> find (\<lambda>b. bot_id b = i) bots)"

subsection \<open>Saving the alert form and the name\<close>

definition handleSaveAlerts :: "dashboard \<Rightarrow> trading_bot list \<Rightarrow> dashboard \<times> trading_bot list" where
  "handleSaveAlerts d bots =
     (case alertForm d of
        None \<Rightarrow> (d, bots)
      | Some f \<Rightarrow>
          (let settings =
                 \<lparr>pnlDropThreshold = orZero (parseFloat (form_pnlDropThreshold f)),
                  maxDowntimeMinutes = orZero (parseFloat (form_maxDowntimeMinutes f)),
                  notifyOnTradeFailure = form_notifyOnTradeFailure f\<rparr>
           in (d\<lparr>alertForm := None\<rparr>,
               handleUpdateBot (form_id f)
                 (no_updates\<lparr>u_alertSettings := Some settings,
                             u_targetPnl := Some (orZero (parseFloat (form_targetPnl f)))\<rparr>)
                 bots)))"

text \<open>
  \<open>handleSaveName\<close>; the test \<open>editingNameId && tempName.trim()\<close> fails for
  \<open>null\<close> and for an empty string on either side.
\<close>

definition handleSaveName :: "dashboard \<Rightarrow> trading_bot list \<Rightarrow> dashboard \<times> trading_bot list" where
  "handleSaveName d bots =
     (case editingNameId d of
        None \<Rightarrow> (d, bots)
      | Some i \<Rightarrow>
          if i \<noteq> [] \<and> trim (tempName d) \<noteq> [] then
            (d\<lparr>editingNameId := None\<rparr>,
             handleUpdateBot i (no_updates\<lparr>u_name := Some (trim (tempName d))\<rparr>) bots)
          else (d, bots))"

subsection \<open>Filtering and sorting\<close>

text \<open>
  \<open>str.match(/(\d+)d/)\<close>, for the letter \<open>c\<close>: the digits of the leftmost run of
  digits that the letter follows, or \<open>None\<close> when there is no match.
\<close>

fun matchDigits :: "char \<Rightarrow> string \<Rightarrow> string option" where
  "matchDigits c [] = None"
| "matchDigits c (x # xs) =
     (let ds = takeWhile isDigit (x # xs);
          rest = dropWhile isDigit (x # xs)
      in if ds \<noteq> [] \<and> rest \<noteq> [] \<and> hd rest = c then Some ds
         else matchDigits c xs)"

definition getHours :: "string \<Rightarrow> rat" where
  "getHours str =
     (if includes_str str ''m'' \<and> \<not> includes_str str ''h'' \<and> \<not> includes_str str ''d''
      then fl (1 / 100)
      else
        (let d = (case matchDigits CHR ''d'' str of Some ds \<Rightarrow> digits_val ds | None \<Rightarrow> 0);
             h = (case matchDigits CHR ''h'' str of Some ds \<Rightarrow> digits_val ds | None \<Rightarrow> 0)
         in of_nat (d * 24 + h)))"

text \<open>
  The comparator given to \<open>sort\<close>. \<open>localeCompare\<close> depends on the locale of the
  host and is a parameter. Only the sign of the result is used, and the rounded
  difference of two doubles has the sign of their difference (it is zero only for
  equal doubles, and an overflow keeps the sign), so the differences are not
  rounded here.
\<close>

definition compareBots ::
  "(string \<Rightarrow> string \<Rightarrow> rat) \<Rightarrow> sort_by \<Rightarrow> trading_bot \<Rightarrow> trading_bot \<Rightarrow> rat" where
  "compareBots localeCompare key a b =
     (case key of
        BY_NAME \<Rightarrow> localeCompare (name a) (name b)
      | BY_PNL \<Rightarrow> pnl b - pnl a
      | BY_UPTIME \<Rightarrow> getHours (uptime b) - getHours (uptime a))"

text \<open>
  \<open>Array.prototype.sort\<close> is stable: an element goes before another one when the
  comparator is negative, and elements that compare equal keep their order. For a
  comparator that is an ordering this fixes the result, which insertion from the
  back computes.
\<close>

fun insertJS :: "('a \<Rightarrow> 'a \<Rightarrow> rat) \<Rightarrow> 'a \<Rightarrow> 'a list \<Rightarrow> 'a list" where
  "insertJS cmp x [] = [x]"
| "insertJS cmp x (y # ys) =
     (if cmp x y \<le> 0 then x # y # ys else y # insertJS cmp x ys)"

definition sortJS :: "('a \<Rightarrow> 'a \<Rightarrow> rat) \<Rightarrow> 'a list \<Rightarrow> 'a list" where
  "sortJS cmp xs = foldr (insertJS cmp) xs []"

text \<open>
  Arrays are objects: \<open>filter\<close> and the spread \<open>[...bots]\<close> make a new array,
  \<open>sort\<close> reorders the array it is called on. The heap maps the references
  handed out so far to the contents of their arrays.
\<close>

record heap =
  cells :: "nat \<Rightarrow> trading_bot list option"
  next_free :: nat

definition deref :: "heap \<Rightarrow> nat \<Rightarrow> trading_bot list" where
  "deref h r = (case cells h r of Some xs \<Rightarrow> xs | None \<Rightarrow> [])"

definition alloc :: "trading_bot list \<Rightarrow> heap \<Rightarrow> nat \<times> heap" where
  "alloc xs h =
     (next_free h, h\<lparr>cells := (cells h)(next_free h \<mapsto> xs), next_free := Suc (next_free h)\<rparr>)"

definition sortInPlace :: "(trading_bot \<Rightarrow> trading_bot \<Rightarrow> rat) \<Rightarrow> nat \<Rightarrow> heap \<Rightarrow> heap" where
  "sortInPlace cmp r h = h\<lparr>cells := (cells h)(r \<mapsto> sortJS cmp (deref h r))\<rparr>"

text \<open>
  \<open>processedBots\<close>: \<open>bots\<close> is the reference of the store's array; the result is
  the reference of the array shown and the heap after the computation.
\<close>

definition processedBots ::
  "(string \<Rightarrow> string \<Rightarrow> rat) \<Rightarrow> dashboard \<Rightarrow> nat \<Rightarrow> heap \<Rightarrow> nat \<times> heap" where
  "processedBots localeCompare d bots h =
     (let (result0, h0) = alloc (deref h bots) h;
          (result1, h1) =
            (case statusFilter d of
               FILTER_ALL \<Rightarrow> (result0, h0)
             | Only s \<Rightarrow> alloc (filter (\<lambda>b. status b = s) (deref h0 result0)) h0);
          (result2, h2) =
            (if searchQuery d \<noteq> [] then
               (let q = toLowerCase (searchQuery d)
                in alloc (filter (\<lambda>b. includes_str (toLowerCase (name b)) q
                                     \<or> includes_str (toLowerCase (bot_id b)) q)
                            (deref h1 result1)) h1)
             else (result1, h1))
      in (result2, sortInPlace (compareBots localeCompare (sortBy d)) result2 h2))"

text \<open>The contents of the array that \<open>processedBots\<close> returns.\<close>

definition processedList ::
  "(string \<Rightarrow> string \<Rightarrow> rat) \<Rightarrow> dashboard \<Rightarrow> nat \<Rightarrow> heap \<Rightarrow> trading_bot list" where
  "processedList localeCompare d bots h =
     (let (result, h') = processedBots localeCompare d bots h in deref h' result)"

section \<open>Auxiliary facts\<close>

lemma floor_rat_numeral [simp]:
  "\<lfloor>(numeral a / numeral b :: rat)\<rfloor> = numeral a div numeral b"
  by (metis floor_divide_of_int_eq of_int_numeral)

text \<open>The equations that evaluate a rounding on a numeral.\<close>

lemmas fl_eval = fl_def roundHalfEven_def binade.simps Let_def

lemma toggle_nth:
  "k < length bots \<Longrightarrow>
   handleToggleBot i bots ! k =
     (if bot_id (bots ! k) = i
      then (bots ! k)\<lparr>status := (if status (bots ! k) = RUNNING then PAUSED else RUNNING)\<rparr>
      else bots ! k)"
  by (simp add: handleToggleBot_def)

lemma toggle_unknown:
  "i \<notin> bot_id ` set bots \<Longrightarrow> handleToggleBot i bots = bots"
  unfolding handleToggleBot_def by (induction bots) auto

lemma toggle_frame:
  "filter (\<lambda>b. bot_id b \<noteq> i) (handleToggleBot i bots) = filter (\<lambda>b. bot_id b \<noteq> i) bots"
  unfolding handleToggleBot_def by (induction bots) auto

lemma update_frame:
  "u_id u = None \<Longrightarrow>
   filter (\<lambda>b. bot_id b \<noteq> i) (handleUpdateBot i u bots) = filter (\<lambda>b. bot_id b \<noteq> i) bots"
  unfolding handleUpdateBot_def by (induction bots) (auto simp add: spread_updates_def)

lemma update_unknown:
  "i \<notin> bot_id ` set bots \<Longrightarrow> handleUpdateBot i u bots = bots"
  unfolding handleUpdateBot_def by (induction bots) auto

lemma delete_unknown:
  "i \<notin> bot_id ` set bots \<Longrightarrow> handleDeleteBot i bots = bots"
  unfolding handleDeleteBot_def by (induction bots) auto

lemma tickBot_idle: "status b \<noteq> RUNNING \<Longrightarrow> tickBot b g = (b, g)"
  by (simp add: tickBot_def)

lemma tick_length: "length (fst (tick bots g)) = length bots"
  by (induction bots arbitrary: g) (simp_all add: split_beta Let_def)

lemma tick_idle_nth:
  "k < length bots \<Longrightarrow> status (bots ! k) \<noteq> RUNNING \<Longrightarrow> fst (tick bots g) ! k = bots ! k"
proof (induction bots arbitrary: g k)
  case Nil
  then show ?case by simp
next
  case (Cons b rest)
  show ?case
  proof (cases k)
    case 0
    with Cons.prems show ?thesis by (simp add: split_beta Let_def tickBot_idle)
  next
    case (Suc j)
    with Cons.prems have "fst (tick rest (snd (tickBot b g))) ! j = rest ! j"
      by (intro Cons.IH) simp_all
    with Suc show ?thesis by (simp add: split_beta Let_def)
  qed
qed

lemma trim_blank:
  assumes "\<forall>c \<in> set s. isWhiteSpace c"
  shows "trim s = []"
proof -
  from assms have e: "dropWhile isWhiteSpace s = []" by (induction s) auto
  show ?thesis unfolding trim_def e by simp
qed

section \<open>The lifecycle operations\<close>

text \<open>
  C1 (amended). \<open>ToggleStatus(id)\<close> keeps the length of the store; at every position
  holding a bot with the given identifier it turns a RUNNING bot into the same bot
  with status PAUSED, and a PAUSED or STOPPED bot into the same bot with status
  RUNNING; when no bot has the identifier the store is returned as it is.
\<close>

theorem handleToggleBot_status:
  "length (handleToggleBot i bots) = length bots \<and>
   (\<forall>k < length bots. bot_id (bots ! k) = i \<longrightarrow>
      (status (bots ! k) = RUNNING \<longrightarrow>
         handleToggleBot i bots ! k = (bots ! k)\<lparr>status := PAUSED\<rparr>) \<and>
      (status (bots ! k) = PAUSED \<longrightarrow>
         handleToggleBot i bots ! k = (bots ! k)\<lparr>status := RUNNING\<rparr>) \<and>
      (status (bots ! k) = STOPPED \<longrightarrow>
         handleToggleBot i bots ! k = (bots ! k)\<lparr>status := RUNNING\<rparr>)) \<and>
   (i \<notin> bot_id ` set bots \<longrightarrow> handleToggleBot i bots = bots)"
proof (intro conjI allI impI)
  show "length (handleToggleBot i bots) = length bots"
    by (simp add: handleToggleBot_def)
next
  fix k assume "k < length bots" "bot_id (bots ! k) = i" "status (bots ! k) = RUNNING"
  then show "handleToggleBot i bots ! k = (bots ! k)\<lparr>status := PAUSED\<rparr>"
    by (simp add: toggle_nth)
next
  fix k assume "k < length bots" "bot_id (bots ! k) = i" "status (bots ! k) = PAUSED"
  then show "handleToggleBot i bots ! k = (bots ! k)\<lparr>status := RUNNING\<rparr>"
    by (simp add: toggle_nth)
next
  fix k assume "k < length bots" "bot_id (bots ! k) = i" "status (bots ! k) = STOPPED"
  then show "handleToggleBot i bots ! k = (bots ! k)\<lparr>status := RUNNING\<rparr>"
    by (simp add: toggle_nth)
next
  assume "i \<notin> bot_id ` set bots"
  then show "handleToggleBot i bots = bots" by (rule toggle_unknown)
qed

text \<open>
  The theorem at the store of the mock bots 2 (PAUSED) and 4 (STOPPED): toggling
  \<open>2\<close> resumes the first bot, and toggling the unknown \<open>7\<close> changes nothing.
\<close>

theorem handleToggleBot_status_witness:
  "handleToggleBot ''2'' [MOCK_BOT_2 [] ''t'', MOCK_BOT_4 [] ''t''] ! 0
     = (MOCK_BOT_2 [] ''t'')\<lparr>status := RUNNING\<rparr> \<and>
   ''7'' \<notin> bot_id ` set [MOCK_BOT_2 [] ''t'', MOCK_BOT_4 [] ''t''] \<and>
   handleToggleBot ''7'' [MOCK_BOT_2 [] ''t'', MOCK_BOT_4 [] ''t'']
     = [MOCK_BOT_2 [] ''t'', MOCK_BOT_4 [] ''t'']"
proof -
  have h0: "(0::nat) < length [MOCK_BOT_2 [] ''t'', MOCK_BOT_4 [] ''t'']" by simp
  have h1: "bot_id ([MOCK_BOT_2 [] ''t'', MOCK_BOT_4 [] ''t''] ! 0) = ''2''"
    by (simp add: MOCK_BOT_2_def)
  have h2: "status ([MOCK_BOT_2 [] ''t'', MOCK_BOT_4 [] ''t''] ! 0) = PAUSED"
    by (simp add: MOCK_BOT_2_def)
  have h3: "''7'' \<notin> bot_id ` set [MOCK_BOT_2 [] ''t'', MOCK_BOT_4 [] ''t'']"
    by (simp add: MOCK_BOT_2_def MOCK_BOT_4_def)
  from handleToggleBot_status [of "''2''" "[MOCK_BOT_2 [] ''t'', MOCK_BOT_4 [] ''t'']"] h0 h1 h2
  have "handleToggleBot ''2'' [MOCK_BOT_2 [] ''t'', MOCK_BOT_4 [] ''t''] ! 0
     = ([MOCK_BOT_2 [] ''t'', MOCK_BOT_4 [] ''t''] ! 0)\<lparr>status := RUNNING\<rparr>"
    by blast
  moreover from handleToggleBot_status [of "''7''" "[MOCK_BOT_2 [] ''t'', MOCK_BOT_4 [] ''t'']"] h3
  have "handleToggleBot ''7'' [MOCK_BOT_2 [] ''t'', MOCK_BOT_4 [] ''t'']
     = [MOCK_BOT_2 [] ''t'', MOCK_BOT_4 [] ''t'']"
    by blast
  ultimately show ?thesis using h3 by simp
qed

text \<open>
  The claim as the specification has it fails: toggling the STOPPED mock bot 4
  changes the store, and the bot comes out RUNNING.
\<close>

theorem toggle_stopped_counterexample:
  "handleToggleBot ''4'' [MOCK_BOT_4 [] ''t''] \<noteq> [MOCK_BOT_4 [] ''t''] \<and>
   map status (handleToggleBot ''4'' [MOCK_BOT_4 [] ''t'']) = [RUNNING]"
  by (simp add: handleToggleBot_def MOCK_BOT_4_def)


text \<open>
  C8. When the candidate name is empty or white space only, \<open>Rename\<close> does nothing:
  the store, and with it the name of every bot, and the editing state stay as they
  are.
\<close>

theorem handleSaveName_blank:
  assumes "\<forall>c \<in> set (tempName d). isWhiteSpace c"
  shows "handleSaveName d bots = (d, bots)"
proof -
  from assms have "trim (tempName d) = []" by (rule trim_blank)
  then show ?thesis by (simp add: handleSaveName_def split: option.splits)
qed

text \<open>Renaming mock bot 2 to three spaces leaves it with its name.\<close>

theorem handleSaveName_blank_witness:
  "list_all isWhiteSpace
     (tempName (initial_dashboard\<lparr>editingNameId := Some ''2'', tempName := ''   ''\<rparr>)) \<and>
   map name (snd (handleSaveName
       (initial_dashboard\<lparr>editingNameId := Some ''2'', tempName := ''   ''\<rparr>)
       [MOCK_BOT_2 [] ''t''])) = [''RSI Mean Reversion - ETH'']"
proof -
  have h: "\<forall>c \<in> set (tempName (initial_dashboard\<lparr>editingNameId := Some ''2'', tempName := ''   ''\<rparr>)).
      isWhiteSpace c"
    by (simp add: isWhiteSpace_def)
  from handleSaveName_blank [OF h, of "[MOCK_BOT_2 [] ''t'']"] h
  show ?thesis by (simp add: MOCK_BOT_2_def list_all_iff)
qed

text \<open>
  C9. \<open>Delete(id)\<close> is one filter over the store: no bot with the identifier is
  left (its history and alerts are fields of the record and go with it), every
  other bot stays, and the store is returned as it is when no bot has the
  identifier. The history lookup for the deleted identifier, or for an identifier
  that no bot has, gives \<open>null\<close>; it has no failing branch.
\<close>

theorem handleDeleteBot_removes:
  "(\<forall>b \<in> set (handleDeleteBot i bots). bot_id b \<noteq> i) \<and>
   (\<forall>b \<in> set bots. bot_id b \<noteq> i \<longrightarrow> b \<in> set (handleDeleteBot i bots)) \<and>
   (i \<notin> bot_id ` set bots \<longrightarrow> handleDeleteBot i bots = bots) \<and>
   (historyBotId d = Some i \<longrightarrow> historyBot d (handleDeleteBot i bots) = None) \<and>
   (historyBotId d = Some i \<longrightarrow> i \<notin> bot_id ` set bots \<longrightarrow> historyBot d bots = None)"
proof (intro conjI impI)
  show "\<forall>b \<in> set (handleDeleteBot i bots). bot_id b \<noteq> i"
    by (simp add: handleDeleteBot_def)
  show "\<forall>b \<in> set bots. bot_id b \<noteq> i \<longrightarrow> b \<in> set (handleDeleteBot i bots)"
    by (simp add: handleDeleteBot_def)
  show "handleDeleteBot i bots = bots" if "i \<notin> bot_id ` set bots"
    using that by (rule delete_unknown)
  show "historyBot d (handleDeleteBot i bots) = None" if "historyBotId d = Some i"
    using that by (simp add: historyBot_def handleDeleteBot_def find_None_iff)
  show "historyBot d bots = None" if "historyBotId d = Some i" "i \<notin> bot_id ` set bots"
    using that by (auto simp add: historyBot_def find_None_iff)
qed

text \<open>
  Deleting mock bot 2 from the store of the mock bots 2 and 4 leaves bot 4 alone,
  and the history view opened on bot 2 finds nothing.
\<close>

theorem handleDeleteBot_removes_witness:
  "handleDeleteBot ''2'' [MOCK_BOT_2 [] ''t'', MOCK_BOT_4 [] ''t''] = [MOCK_BOT_4 [] ''t''] \<and>
   historyBotId (initial_dashboard\<lparr>historyBotId := Some ''2''\<rparr>) = Some ''2'' \<and>
   historyBot (initial_dashboard\<lparr>historyBotId := Some ''2''\<rparr>)
     (handleDeleteBot ''2'' [MOCK_BOT_2 [] ''t'', MOCK_BOT_4 [] ''t'']) = None"
proof -
  have h: "historyBotId (initial_dashboard\<lparr>historyBotId := Some ''2''\<rparr>) = Some ''2''"
    by simp
  have e: "handleDeleteBot ''2'' [MOCK_BOT_2 [] ''t'', MOCK_BOT_4 [] ''t''] = [MOCK_BOT_4 [] ''t'']"
    by (simp add: handleDeleteBot_def MOCK_BOT_2_def MOCK_BOT_4_def)
  from handleDeleteBot_removes
    [of "''2''" "[MOCK_BOT_2 [] ''t'', MOCK_BOT_4 [] ''t'']"
        "initial_dashboard\<lparr>historyBotId := Some ''2''\<rparr>"] h
  have "historyBot (initial_dashboard\<lparr>historyBotId := Some ''2''\<rparr>)
     (handleDeleteBot ''2'' [MOCK_BOT_2 [] ''t'', MOCK_BOT_4 [] ''t'']) = None"
    by blast
  with h e show ?thesis by simp
qed

text \<open>
  C10. Each operation on one identifier leaves the bots with another identifier
  as they are and in their order: the bots with another identifier, read off the
  store from front to back, are the same list before and after \<open>ToggleStatus\<close>,
  \<open>Delete\<close>, \<open>Rename\<close> (on the bot being edited) and \<open>UpdateAlertSettings\<close> (on
  the bot of the form).
\<close>

theorem lifecycle_frame:
  "filter (\<lambda>b. bot_id b \<noteq> i) (handleToggleBot i bots) = filter (\<lambda>b. bot_id b \<noteq> i) bots \<and>
   filter (\<lambda>b. bot_id b \<noteq> i) (handleDeleteBot i bots) = filter (\<lambda>b. bot_id b \<noteq> i) bots \<and>
   (editingNameId d = Some i \<longrightarrow>
      filter (\<lambda>b. bot_id b \<noteq> i) (snd (handleSaveName d bots))
        = filter (\<lambda>b. bot_id b \<noteq> i) bots) \<and>
   (alertForm d = Some f \<longrightarrow> form_id f = i \<longrightarrow>
      filter (\<lambda>b. bot_id b \<noteq> i) (snd (handleSaveAlerts d bots))
        = filter (\<lambda>b. bot_id b \<noteq> i) bots)"
proof (intro conjI impI)
  show "filter (\<lambda>b. bot_id b \<noteq> i) (handleToggleBot i bots) = filter (\<lambda>b. bot_id b \<noteq> i) bots"
    by (rule toggle_frame)
  show "filter (\<lambda>b. bot_id b \<noteq> i) (handleDeleteBot i bots) = filter (\<lambda>b. bot_id b \<noteq> i) bots"
    by (simp add: handleDeleteBot_def)
  show "filter (\<lambda>b. bot_id b \<noteq> i) (snd (handleSaveName d bots))
      = filter (\<lambda>b. bot_id b \<noteq> i) bots" if "editingNameId d = Some i"
    using that by (simp add: handleSaveName_def update_frame no_updates_def)
  show "filter (\<lambda>b. bot_id b \<noteq> i) (snd (handleSaveAlerts d bots))
      = filter (\<lambda>b. bot_id b \<noteq> i) bots" if "alertForm d = Some f" "form_id f = i"
    using that by (simp add: handleSaveAlerts_def update_frame no_updates_def)
qed

text \<open>Renaming mock bot 2 in the store of the mock bots 2 and 4 leaves bot 4 as it is.\<close>

theorem lifecycle_frame_witness:
  "editingNameId (initial_dashboard\<lparr>editingNameId := Some ''2'', tempName := ''RSI''\<rparr>)
     = Some ''2'' \<and>
   filter (\<lambda>b. bot_id b \<noteq> ''2'')
     (snd (handleSaveName (initial_dashboard\<lparr>editingNameId := Some ''2'', tempName := ''RSI''\<rparr>)
        [MOCK_BOT_2 [] ''t'', MOCK_BOT_4 [] ''t''])) = [MOCK_BOT_4 [] ''t'']"
proof -
  have h: "editingNameId (initial_dashboard\<lparr>editingNameId := Some ''2'', tempName := ''RSI''\<rparr>)
     = Some ''2''"
    by simp
  have e: "filter (\<lambda>b. bot_id b \<noteq> ''2'') [MOCK_BOT_2 [] ''t'', MOCK_BOT_4 [] ''t'']
     = [MOCK_BOT_4 [] ''t'']"
    by (simp add: MOCK_BOT_2_def MOCK_BOT_4_def)
  from lifecycle_frame
    [of "''2''" "[MOCK_BOT_2 [] ''t'', MOCK_BOT_4 [] ''t'']"
        "initial_dashboard\<lparr>editingNameId := Some ''2'', tempName := ''RSI''\<rparr>"] h
  have "filter (\<lambda>b. bot_id b \<noteq> ''2'')
     (snd (handleSaveName (initial_dashboard\<lparr>editingNameId := Some ''2'', tempName := ''RSI''\<rparr>)
        [MOCK_BOT_2 [] ''t'', MOCK_BOT_4 [] ''t'']))
     = filter (\<lambda>b. bot_id b \<noteq> ''2'') [MOCK_BOT_2 [] ''t'', MOCK_BOT_4 [] ''t'']"
    by blast
  with h e show ?thesis by simp
qed

section \<open>The tick\<close>

text \<open>
  C4. A tick keeps the length of the store, and at every position that holds a
  PAUSED or STOPPED bot the record after the tick is the record before it, whatever
  the random draws are.
\<close>

theorem tick_leaves_idle_bots:
  "length (fst (tick bots g)) = length bots \<and>
   (\<forall>k < length bots. status (bots ! k) = PAUSED \<or> status (bots ! k) = STOPPED \<longrightarrow>
      fst (tick bots g) ! k = bots ! k)"
proof (intro conjI allI impI)
  show "length (fst (tick bots g)) = length bots" by (rule tick_length)
next
  fix k assume "k < length bots" "status (bots ! k) = PAUSED \<or> status (bots ! k) = STOPPED"
  then show "fst (tick bots g) ! k = bots ! k"
    by (intro tick_idle_nth) auto
qed

text \<open>
  A tick on a freshly deployed (RUNNING) bot followed by the PAUSED mock bot 2:
  the second record is untouched.
\<close>

theorem tick_leaves_idle_bots_witness:
  "(1::nat) < length [newBot 1700000000000 ''Test Bot'' ''code'', MOCK_BOT_2 [] ''t''] \<and>
   status ([newBot 1700000000000 ''Test Bot'' ''code'', MOCK_BOT_2 [] ''t''] ! 1) = PAUSED \<and>
   fst (tick [newBot 1700000000000 ''Test Bot'' ''code'', MOCK_BOT_2 [] ''t''] (\<lambda>n. 1 / 2)) ! 1
     = MOCK_BOT_2 [] ''t''"
proof -
  have h0: "(1::nat) < length [newBot 1700000000000 ''Test Bot'' ''code'', MOCK_BOT_2 [] ''t'']"
    by simp
  have h1: "status ([newBot 1700000000000 ''Test Bot'' ''code'', MOCK_BOT_2 [] ''t''] ! 1) = PAUSED"
    by (simp add: MOCK_BOT_2_def)
  from tick_leaves_idle_bots
    [of "[newBot 1700000000000 ''Test Bot'' ''code'', MOCK_BOT_2 [] ''t'']" "\<lambda>n. 1 / 2"] h0 h1
  have "fst (tick [newBot 1700000000000 ''Test Bot'' ''code'', MOCK_BOT_2 [] ''t''] (\<lambda>n. 1 / 2)) ! 1
     = [newBot 1700000000000 ''Test Bot'' ''code'', MOCK_BOT_2 [] ''t''] ! 1"
    by blast
  with h0 h1 show ?thesis by simp
qed


section \<open>The fleet query\<close>

lemma insertJS_pnl:
  "insertJS (compareBots lc BY_PNL) x ys = insort_key (\<lambda>b. - pnl b) x ys"
  by (induction ys) (simp_all add: compareBots_def)

lemma sortJS_pnl:
  "sortJS (compareBots lc BY_PNL) xs = sort_key (\<lambda>b. - pnl b) xs"
  by (induction xs) (simp_all add: sortJS_def insertJS_pnl)

lemma sortJS_pnl_idem:
  "sortJS (compareBots lc BY_PNL) (sortJS (compareBots lc BY_PNL) xs)
     = sortJS (compareBots lc BY_PNL) xs"
  by (simp add: sortJS_pnl sort_key_id_if_sorted)

lemma sortJS_pnl_stable:
  "filter (\<lambda>b. pnl b = v) (sortJS (compareBots lc BY_PNL) xs) = filter (\<lambda>b. pnl b = v) xs"
proof -
  have "filter (\<lambda>b. - pnl b = - v) (sort_key (\<lambda>b. - pnl b) xs)
      = filter (\<lambda>b. - pnl b = - v) xs"
    by (rule sort_key_stable)
  then show ?thesis by (simp add: sortJS_pnl)
qed

lemma sortJS_pnl_set: "set (sortJS (compareBots lc BY_PNL) xs) = set xs"
  by (simp add: sortJS_pnl)

lemma sortJS_pnl_descending:
  "sorted (map (\<lambda>b. - pnl b) (sortJS (compareBots lc BY_PNL) xs))"
  by (simp add: sortJS_pnl)

lemma processedBots_store:
  "bots < next_free h \<Longrightarrow> cells (snd (processedBots lc d bots h)) bots = cells h bots"
  by (simp add: processedBots_def alloc_def sortInPlace_def deref_def Let_def
      split: status_filter.splits)

lemma processedList_eq:
  "processedList lc d bots h =
     sortJS (compareBots lc (sortBy d))
       (filter (\<lambda>b. searchQuery d = [] \<or>
                     includes_str (toLowerCase (name b)) (toLowerCase (searchQuery d)) \<or>
                     includes_str (toLowerCase (bot_id b)) (toLowerCase (searchQuery d)))
          (filter (\<lambda>b. case statusFilter d of FILTER_ALL \<Rightarrow> True | Only s \<Rightarrow> status b = s)
             (deref h bots)))"
  by (cases "statusFilter d")
     (auto simp add: processedList_def processedBots_def alloc_def sortInPlace_def deref_def
        Let_def intro: filter_cong)


lemma processedBots_deref:
  "deref (snd (processedBots lc d bots h)) (fst (processedBots lc d bots h))
     = processedList lc d bots h"
  by (simp add: processedList_def split_beta)

text \<open>
  C6. The query leaves the array of the store as it is in the heap; what it shows
  depends only on the contents of the store and on the filter, search and sort
  settings. With the sort by PnL, the bots shown are in descending order of PnL,
  running the query again on what is shown gives the same list, and the bots with
  any given PnL are shown in the order in which the store has them.
\<close>

theorem processedBots_query:
  assumes "bots < next_free h"
  shows "cells (snd (processedBots lc d bots h)) bots = cells h bots \<and>
    (\<forall>h' bots'. deref h' bots' = deref h bots \<longrightarrow>
       processedList lc d bots' h' = processedList lc d bots h) \<and>
    (sortBy d = BY_PNL \<longrightarrow>
       sorted (map (\<lambda>b. - pnl b) (processedList lc d bots h)) \<and>
       processedList lc d (fst (processedBots lc d bots h)) (snd (processedBots lc d bots h))
         = processedList lc d bots h \<and>
       (\<forall>v. filter (\<lambda>b. pnl b = v) (processedList lc d bots h)
          = filter (\<lambda>b. pnl b = v)
              (filter (\<lambda>b. searchQuery d = [] \<or>
                            includes_str (toLowerCase (name b)) (toLowerCase (searchQuery d)) \<or>
                            includes_str (toLowerCase (bot_id b)) (toLowerCase (searchQuery d)))
                 (filter (\<lambda>b. case statusFilter d of FILTER_ALL \<Rightarrow> True | Only s \<Rightarrow> status b = s)
                    (deref h bots)))))"
proof (intro conjI allI impI)
  from assms show "cells (snd (processedBots lc d bots h)) bots = cells h bots"
    by (rule processedBots_store)
next
  fix h' bots' assume "deref h' bots' = deref h bots"
  then show "processedList lc d bots' h' = processedList lc d bots h"
    by (simp add: processedList_eq)
next
  assume "sortBy d = BY_PNL"
  then show "sorted (map (\<lambda>b. - pnl b) (processedList lc d bots h))"
    by (simp add: processedList_eq sortJS_pnl_descending)
next
  assume pnl: "sortBy d = BY_PNL"
  let ?P = "\<lambda>b. case statusFilter d of FILTER_ALL \<Rightarrow> True | Only s \<Rightarrow> status b = s"
  let ?Q = "\<lambda>b. searchQuery d = [] \<or>
      includes_str (toLowerCase (name b)) (toLowerCase (searchQuery d)) \<or>
      includes_str (toLowerCase (bot_id b)) (toLowerCase (searchQuery d))"
  let ?L = "processedList lc d bots h"
  have L: "?L = sortJS (compareBots lc BY_PNL) (filter ?Q (filter ?P (deref h bots)))"
    using pnl by (simp add: processedList_eq)
  have "\<forall>b \<in> set ?L. ?P b \<and> ?Q b"
    unfolding L sortJS_pnl_set by simp
  then have keep: "filter ?Q (filter ?P ?L) = ?L"
    by (simp add: filter_id_conv)
  have "processedList lc d (fst (processedBots lc d bots h)) (snd (processedBots lc d bots h))
      = sortJS (compareBots lc BY_PNL) (filter ?Q (filter ?P ?L))"
    using pnl by (simp add: processedList_eq [of lc d "fst (processedBots lc d bots h)"]
        processedBots_deref)
  also have "\<dots> = sortJS (compareBots lc BY_PNL) ?L" by (simp only: keep)
  also have "\<dots> = ?L" unfolding L by (rule sortJS_pnl_idem)
  finally show "processedList lc d (fst (processedBots lc d bots h))
      (snd (processedBots lc d bots h)) = ?L" .
next
  fix v assume "sortBy d = BY_PNL"
  then show "filter (\<lambda>b. pnl b = v) (processedList lc d bots h)
      = filter (\<lambda>b. pnl b = v)
          (filter (\<lambda>b. searchQuery d = [] \<or>
                        includes_str (toLowerCase (name b)) (toLowerCase (searchQuery d)) \<or>
                        includes_str (toLowerCase (bot_id b)) (toLowerCase (searchQuery d)))
             (filter (\<lambda>b. case statusFilter d of FILTER_ALL \<Rightarrow> True | Only s \<Rightarrow> status b = s)
                (deref h bots)))"
    by (simp only: processedList_eq sortJS_pnl_stable)
qed

text \<open>
  The store holds the STOPPED mock bot 4, a freshly deployed bot, the PAUSED mock
  bot 2 and a second freshly deployed bot, in this order. The default view (all
  statuses, no search, sort by PnL) shows the two new bots first, in the order of
  the store, then bot 2 and bot 4; the array of the store is as before.
\<close>

theorem processedBots_query_witness:
  "(0::nat) < next_free \<lparr>cells = [0 \<mapsto> [MOCK_BOT_4 [] ''t'', newBot 1700000000000 ''A'' ''c'',
                               MOCK_BOT_2 [] ''t'', newBot 1700000000001 ''B'' ''c'']],
                        next_free = 1\<rparr> \<and>
   cells (snd (processedBots (\<lambda>a b. 0) initial_dashboard 0
       \<lparr>cells = [0 \<mapsto> [MOCK_BOT_4 [] ''t'', newBot 1700000000000 ''A'' ''c'',
                       MOCK_BOT_2 [] ''t'', newBot 1700000000001 ''B'' ''c'']],
        next_free = 1\<rparr>)) 0
     = Some [MOCK_BOT_4 [] ''t'', newBot 1700000000000 ''A'' ''c'',
             MOCK_BOT_2 [] ''t'', newBot 1700000000001 ''B'' ''c''] \<and>
   processedList (\<lambda>a b. 0) initial_dashboard 0
       \<lparr>cells = [0 \<mapsto> [MOCK_BOT_4 [] ''t'', newBot 1700000000000 ''A'' ''c'',
                       MOCK_BOT_2 [] ''t'', newBot 1700000000001 ''B'' ''c'']],
        next_free = 1\<rparr>
     = [newBot 1700000000000 ''A'' ''c'', newBot 1700000000001 ''B'' ''c'',
        MOCK_BOT_2 [] ''t'', MOCK_BOT_4 [] ''t'']"
proof -
  let ?store = "[MOCK_BOT_4 [] ''t'', newBot 1700000000000 ''A'' ''c'',
                 MOCK_BOT_2 [] ''t'', newBot 1700000000001 ''B'' ''c'']"
  let ?h = "\<lparr>cells = [0 \<mapsto> ?store], next_free = 1\<rparr>"
  have h: "(0::nat) < next_free ?h" by simp
  from processedBots_query [OF h, of "\<lambda>a b. 0" initial_dashboard]
  have "cells (snd (processedBots (\<lambda>a b. 0) initial_dashboard 0 ?h)) 0 = cells ?h 0"
    by blast
  then have store: "cells (snd (processedBots (\<lambda>a b. 0) initial_dashboard 0 ?h)) 0 = Some ?store"
    by simp
  have pnls: "pnl (MOCK_BOT_4 [] ''t'') = - 241 / 2"
    "pnl (MOCK_BOT_2 [] ''t'') = - 3180667236830413 / 70368744177664"
    "pnl (newBot 1700000000000 ''A'' ''c'') = 0" "pnl (newBot 1700000000001 ''B'' ''c'') = 0"
    by (simp_all add: MOCK_BOT_4_def MOCK_BOT_2_def newBot_def fl_eval)
  have "processedList (\<lambda>a b. 0) initial_dashboard 0 ?h
     = [newBot 1700000000000 ''A'' ''c'', newBot 1700000000001 ''B'' ''c'',
        MOCK_BOT_2 [] ''t'', MOCK_BOT_4 [] ''t'']"
    by (simp add: processedList_def processedBots_def initial_dashboard_def alloc_def
        sortInPlace_def deref_def sortJS_def compareBots_def pnls)
  with h store show ?thesis by simp
qed

section \<open>Saving the alert form\<close>

lemma not_isDigit_point: "\<not> isDigit CHR ''.''"
  by (simp add: isDigit_def)

lemma numberValue_not_NaN: "numberValue x \<noteq> NaN"
  by (simp add: numberValue_def)

lemma unsignedDecimal_None:
  assumes "case u of [] \<Rightarrow> True
           | c # r \<Rightarrow> \<not> isDigit c \<and>
               (c \<noteq> CHR ''.'' \<or> (case r of [] \<Rightarrow> True | c' # r' \<Rightarrow> \<not> isDigit c'))"
  shows "unsignedDecimal u = None"
proof (cases u)
  case Nil
  then show ?thesis by (simp add: unsignedDecimal_def)
next
  case (Cons c r)
  with assms have c: "\<not> isDigit c"
    and r: "c \<noteq> CHR ''.'' \<or> (case r of [] \<Rightarrow> True | c' # r' \<Rightarrow> \<not> isDigit c')"
    by simp_all
  show ?thesis
  proof (cases "c = CHR ''.''")
    case True
    with r have "takeWhile isDigit r = []" by (cases r) simp_all
    with Cons c True show ?thesis by (simp add: unsignedDecimal_def)
  next
    case False
    with Cons c show ?thesis by (simp add: unsignedDecimal_def)
  qed
qed

lemma unsignedDecimal_Some:
  assumes "\<not> (case u of [] \<Rightarrow> True
           | c # r \<Rightarrow> \<not> isDigit c \<and>
               (c \<noteq> CHR ''.'' \<or> (case r of [] \<Rightarrow> True | c' # r' \<Rightarrow> \<not> isDigit c')))"
  shows "unsignedDecimal u \<noteq> None"
proof (cases u)
  case Nil
  with assms show ?thesis by simp
next
  case (Cons c r)
  show ?thesis
  proof (cases "isDigit c")
    case True
    with Cons show ?thesis
      by (simp add: unsignedDecimal_def Let_def split: list.splits)
  next
    case False
    with assms Cons obtain c' r' where "c = CHR ''.''" "r = c' # r'" "isDigit c'"
      by (cases r) auto
    with Cons show ?thesis
      by (simp add: unsignedDecimal_def Let_def not_isDigit_point)
  qed
qed

lemma parseFloat_NaN_iff:
  "parseFloat s = NaN \<longleftrightarrow>
     take 8 (afterSign s) \<noteq> ''Infinity'' \<and>
     (case afterSign s of [] \<Rightarrow> True
      | c # r \<Rightarrow> \<not> isDigit c \<and>
          (c \<noteq> CHR ''.'' \<or> (case r of [] \<Rightarrow> True | c' # r' \<Rightarrow> \<not> isDigit c')))"
  (is "_ \<longleftrightarrow> _ \<and> ?blank")
proof (cases "take 8 (afterSign s) = ''Infinity''")
  case True
  then show ?thesis by (simp add: parseFloat_def Let_def)
next
  case False
  show ?thesis
  proof (cases ?blank)
    case True
    then have "unsignedDecimal (afterSign s) = None" by (rule unsignedDecimal_None)
    with False True show ?thesis by (simp add: parseFloat_def Let_def)
  next
    case no: False
    then have "unsignedDecimal (afterSign s) \<noteq> None" by (rule unsignedDecimal_Some)
    then obtain v where "unsignedDecimal (afterSign s) = Some v" by auto
    with False no show ?thesis by (simp add: parseFloat_def Let_def numberValue_not_NaN)
  qed
qed

lemma saveAlerts_store:
  "alertForm d = Some f \<Longrightarrow>
   snd (handleSaveAlerts d bots) =
     map (\<lambda>b. if bot_id b = form_id f
               then b\<lparr>alertSettings :=
                        \<lparr>pnlDropThreshold = orZero (parseFloat (form_pnlDropThreshold f)),
                         maxDowntimeMinutes = orZero (parseFloat (form_maxDowntimeMinutes f)),
                         notifyOnTradeFailure = form_notifyOnTradeFailure f\<rparr>,
                      targetPnl := Some (orZero (parseFloat (form_targetPnl f)))\<rparr>
               else b) bots"
  by (simp add: handleSaveAlerts_def handleUpdateBot_def spread_updates_def no_updates_def)

text \<open>The equations that evaluate \<open>parseFloat\<close> on a short text.\<close>

lemmas parseFloat_eval =
  parseFloat_def afterSign_def isWhiteSpace_def unsignedDecimal_def isDigit_def
  digits_val_def digit_val_def exponentPart_def numberValue_def

lemma parseFloat_examples:
  "parseFloat ''abc'' = NaN"
  "parseFloat [] = NaN"
  "parseFloat ''45'' = Finite 45"
  "parseFloat ''12abc'' = Finite 12"
  "parseFloat ''30'' = Finite 30"
  "parseFloat ''2000'' = Finite 2000"
  by (simp_all add: parseFloat_eval fl_eval)

text \<open>A literal beyond the largest double is an infinity, and is kept by \<open>|| 0\<close>.\<close>

lemma parseFloat_overflow: "orZero (parseFloat ''1e400'') = PosInfinity"
  by (simp add: parseFloat_eval orZero_def)

text \<open>
  C7 (amended). With a form open, \<open>UpdateAlertSettings\<close> always returns a store:
  every bot with the identifier of the form gets the alert configuration and the
  target read from the form by \<open>parseFloat(text) || 0\<close>, its other fields and the
  other bots stay. A text in which no number starts after the leading white space
  and an optional sign (no digit, no point followed by a digit, not \<open>Infinity\<close>)
  is stored as \<open>0\<close>; every other text is read as the number it starts with,
  whatever follows that number.
\<close>

theorem handleSaveAlerts_coerces:
  assumes "alertForm d = Some f"
  shows "snd (handleSaveAlerts d bots) =
      map (\<lambda>b. if bot_id b = form_id f
                then b\<lparr>alertSettings :=
                         \<lparr>pnlDropThreshold = orZero (parseFloat (form_pnlDropThreshold f)),
                          maxDowntimeMinutes = orZero (parseFloat (form_maxDowntimeMinutes f)),
                          notifyOnTradeFailure = form_notifyOnTradeFailure f\<rparr>,
                       targetPnl := Some (orZero (parseFloat (form_targetPnl f)))\<rparr>
                else b) bots \<and>
    (\<forall>s. take 8 (afterSign s) \<noteq> ''Infinity'' \<and>
         (case afterSign s of [] \<Rightarrow> True
          | c # r \<Rightarrow> \<not> isDigit c \<and>
              (c \<noteq> CHR ''.'' \<or> (case r of [] \<Rightarrow> True | c' # r' \<Rightarrow> \<not> isDigit c')))
         \<longrightarrow> orZero (parseFloat s) = Finite 0) \<and>
    (\<forall>s. \<not> (take 8 (afterSign s) \<noteq> ''Infinity'' \<and>
         (case afterSign s of [] \<Rightarrow> True
          | c # r \<Rightarrow> \<not> isDigit c \<and>
              (c \<noteq> CHR ''.'' \<or> (case r of [] \<Rightarrow> True | c' # r' \<Rightarrow> \<not> isDigit c'))))
         \<longrightarrow> parseFloat s \<noteq> NaN)"
proof (intro conjI allI impI)
  show "snd (handleSaveAlerts d bots) =
      map (\<lambda>b. if bot_id b = form_id f
                then b\<lparr>alertSettings :=
                         \<lparr>pnlDropThreshold = orZero (parseFloat (form_pnlDropThreshold f)),
                          maxDowntimeMinutes = orZero (parseFloat (form_maxDowntimeMinutes f)),
                          notifyOnTradeFailure = form_notifyOnTradeFailure f\<rparr>,
                       targetPnl := Some (orZero (parseFloat (form_targetPnl f)))\<rparr>
                else b) bots"
    using assms by (rule saveAlerts_store)
next
  fix s
  assume "take 8 (afterSign s) \<noteq> ''Infinity'' \<and>
         (case afterSign s of [] \<Rightarrow> True
          | c # r \<Rightarrow> \<not> isDigit c \<and>
              (c \<noteq> CHR ''.'' \<or> (case r of [] \<Rightarrow> True | c' # r' \<Rightarrow> \<not> isDigit c')))"
  then have "parseFloat s = NaN" by (rule parseFloat_NaN_iff [THEN iffD2])
  then show "orZero (parseFloat s) = Finite 0" by (simp add: orZero_def)
next
  fix s
  assume "\<not> (take 8 (afterSign s) \<noteq> ''Infinity'' \<and>
         (case afterSign s of [] \<Rightarrow> True
          | c # r \<Rightarrow> \<not> isDigit c \<and>
              (c \<noteq> CHR ''.'' \<or> (case r of [] \<Rightarrow> True | c' # r' \<Rightarrow> \<not> isDigit c'))))"
  then show "parseFloat s \<noteq> NaN" using parseFloat_NaN_iff [of s] by blast
qed

text \<open>
  The form of mock bot 2 with the drop threshold \<open>abc\<close>, the downtime \<open>45\<close> and
  an empty target: no number starts in \<open>abc\<close>, the thresholds stored are \<open>0\<close>
  and \<open>45\<close>, the target is \<open>0\<close>.
\<close>

theorem handleSaveAlerts_coerces_witness:
  "alertForm (initial_dashboard\<lparr>alertForm :=
       Some \<lparr>form_id = ''2'', form_pnlDropThreshold = ''abc'',
             form_maxDowntimeMinutes = ''45'', form_notifyOnTradeFailure = False,
             form_targetPnl = []\<rparr>\<rparr>)
     = Some \<lparr>form_id = ''2'', form_pnlDropThreshold = ''abc'',
             form_maxDowntimeMinutes = ''45'', form_notifyOnTradeFailure = False,
             form_targetPnl = []\<rparr> \<and>
   afterSign ''abc'' = ''abc'' \<and> \<not> isDigit CHR ''a'' \<and>
   orZero (parseFloat ''abc'') = Finite 0 \<and>
   map (\<lambda>b. (alertSettings b, targetPnl b))
     (snd (handleSaveAlerts (initial_dashboard\<lparr>alertForm :=
         Some \<lparr>form_id = ''2'', form_pnlDropThreshold = ''abc'',
               form_maxDowntimeMinutes = ''45'', form_notifyOnTradeFailure = False,
               form_targetPnl = []\<rparr>\<rparr>) [MOCK_BOT_2 [] ''t'']))
     = [(\<lparr>pnlDropThreshold = Finite 0, maxDowntimeMinutes = Finite 45,
          notifyOnTradeFailure = False\<rparr>, Some (Finite 0))]"
proof -
  let ?f = "\<lparr>form_id = ''2'', form_pnlDropThreshold = ''abc'',
             form_maxDowntimeMinutes = ''45'', form_notifyOnTradeFailure = False,
             form_targetPnl = []\<rparr>"
  have h: "alertForm (initial_dashboard\<lparr>alertForm := Some ?f\<rparr>) = Some ?f" by simp
  have a: "afterSign ''abc'' = ''abc''" "\<not> isDigit CHR ''a''"
    by (simp_all add: afterSign_def isWhiteSpace_def isDigit_def)
  note inst = handleSaveAlerts_coerces [OF h, of "[MOCK_BOT_2 [] ''t'']"]
  from inst a have zero: "orZero (parseFloat ''abc'') = Finite 0"
    by simp
  from inst
  have "snd (handleSaveAlerts (initial_dashboard\<lparr>alertForm := Some ?f\<rparr>) [MOCK_BOT_2 [] ''t''])
      = map (\<lambda>b. if bot_id b = form_id ?f
                then b\<lparr>alertSettings :=
                         \<lparr>pnlDropThreshold = orZero (parseFloat (form_pnlDropThreshold ?f)),
                          maxDowntimeMinutes = orZero (parseFloat (form_maxDowntimeMinutes ?f)),
                          notifyOnTradeFailure = form_notifyOnTradeFailure ?f\<rparr>,
                       targetPnl := Some (orZero (parseFloat (form_targetPnl ?f)))\<rparr>
                else b) [MOCK_BOT_2 [] ''t'']"
    by blast
  then have "map (\<lambda>b. (alertSettings b, targetPnl b))
      (snd (handleSaveAlerts (initial_dashboard\<lparr>alertForm := Some ?f\<rparr>) [MOCK_BOT_2 [] ''t'']))
     = [(\<lparr>pnlDropThreshold = Finite 0, maxDowntimeMinutes = Finite 45,
          notifyOnTradeFailure = False\<rparr>, Some (Finite 0))]"
    by (simp add: MOCK_BOT_2_def zero parseFloat_examples orZero_def)
  with h a zero show ?thesis by simp
qed

text \<open>
  The claim as the specification has it fails: the text \<open>12abc\<close> is not a number,
  and the threshold stored for it is \<open>12\<close>, not \<open>0\<close>.
\<close>

theorem numeric_prefix_counterexample:
  "map (\<lambda>b. pnlDropThreshold (alertSettings b))
     (snd (handleSaveAlerts (initial_dashboard\<lparr>alertForm :=
         Some \<lparr>form_id = ''2'', form_pnlDropThreshold = ''12abc'',
               form_maxDowntimeMinutes = ''30'', form_notifyOnTradeFailure = True,
               form_targetPnl = ''2000''\<rparr>\<rparr>) [MOCK_BOT_2 [] ''t'']))
     = [Finite 12] \<and>
   Finite 12 \<noteq> Finite 0"
  by (simp add: handleSaveAlerts_def handleUpdateBot_def spread_updates_def no_updates_def
      MOCK_BOT_2_def parseFloat_examples orZero_def)

section \<open>Deploy\<close>

lemma digit_val_digit_char: "n < 10 \<Longrightarrow> digit_val (digit_char n) = n"
proof -
  assume "n < 10"
  then have "n \<in> {0, 1, 2, 3, 4, 5, 6, 7, 8, 9}" by auto
  then show ?thesis by (auto simp add: digit_val_def digit_char_def)
qed

lemma digits_val_snoc: "digits_val (ds @ [c]) = 10 * digits_val ds + digit_val c"
  by (simp add: digits_val_def)

lemma digits_val_toString_nat: "digits_val (toString_nat n) = n"
proof (induction n rule: toString_nat.induct)
  case (1 n)
  show ?case
  proof (cases "n < 10")
    case True
    then show ?thesis
      by (subst toString_nat.simps) (simp add: digits_val_def digit_val_digit_char)
  next
    case False
    with 1 have "digits_val (toString_nat (n div 10)) = n div 10" by simp
    with False show ?thesis
      by (subst toString_nat.simps) (simp add: digits_val_snoc digit_val_digit_char)
  qed
qed

lemma toString_nat_inj: "toString_nat m = toString_nat n \<Longrightarrow> m = n"
  by (metis digits_val_toString_nat)

text \<open>
  C5 (amended). \<open>Deploy\<close> puts one new bot in front of the store and leaves the
  bots of the store behind it as they are. The new bot is RUNNING, has PnL,
  PnL percent and trade count 0, no history, no alerts, the default alert
  configuration (5, 60, true), the given name and code; its identifier is the
  decimal text of the clock reading. The identifier is new whenever every
  identifier in the store is the decimal text of a smaller number (an earlier
  clock reading, or one of the mock identifiers).
\<close>

theorem handleDeployBot_front:
  "tl (fst (handleDeployBot now strategyName description code bots)) = bots \<and>
   fst (handleDeployBot now strategyName description code bots) \<noteq> [] \<and>
   snd (handleDeployBot now strategyName description code bots) = BOTS \<and>
   bot_id (hd (fst (handleDeployBot now strategyName description code bots))) = toString_nat now \<and>
   name (hd (fst (handleDeployBot now strategyName description code bots))) = strategyName \<and>
   status (hd (fst (handleDeployBot now strategyName description code bots))) = RUNNING \<and>
   pnl (hd (fst (handleDeployBot now strategyName description code bots))) = 0 \<and>
   pnlPercent (hd (fst (handleDeployBot now strategyName description code bots))) = 0 \<and>
   trades (hd (fst (handleDeployBot now strategyName description code bots))) = 0 \<and>
   history (hd (fst (handleDeployBot now strategyName description code bots))) = [] \<and>
   activeAlerts (hd (fst (handleDeployBot now strategyName description code bots))) = [] \<and>
   alertSettings (hd (fst (handleDeployBot now strategyName description code bots)))
     = \<lparr>pnlDropThreshold = Finite 5, maxDowntimeMinutes = Finite 60,
        notifyOnTradeFailure = True\<rparr> \<and>
   strategyCode (hd (fst (handleDeployBot now strategyName description code bots))) = Some code \<and>
   ((\<forall>b \<in> set bots. \<exists>t < now. bot_id b = toString_nat t) \<longrightarrow>
      bot_id (hd (fst (handleDeployBot now strategyName description code bots)))
        \<notin> bot_id ` set bots)"
proof -
  have fresh: "toString_nat now \<notin> bot_id ` set bots"
    if "\<forall>b \<in> set bots. \<exists>t < now. bot_id b = toString_nat t"
  proof
    assume "toString_nat now \<in> bot_id ` set bots"
    then obtain b where "b \<in> set bots" "bot_id b = toString_nat now" by auto
    with that obtain t where "t < now" "toString_nat t = toString_nat now" by force
    then show False using toString_nat_inj by blast
  qed
  then show ?thesis
    by (simp add: handleDeployBot_def newBot_def)
qed

text \<open>
  Deploying at the clock reading 1700000000000 into the store of mock bot 2, whose
  identifier is the decimal text of 2.
\<close>

theorem handleDeployBot_front_witness:
  "bot_id (MOCK_BOT_2 [] ''t'') = toString_nat 2 \<and> (2::nat) < 1700000000000 \<and>
   bot_id (hd (fst (handleDeployBot 1700000000000 ''Test Bot'' ''desc'' ''code''
       [MOCK_BOT_2 [] ''t''])))
     \<notin> bot_id ` set [MOCK_BOT_2 [] ''t''] \<and>
   map bot_id (fst (handleDeployBot 1700000000000 ''Test Bot'' ''desc'' ''code''
       [MOCK_BOT_2 [] ''t''])) = [''1700000000000'', ''2'']"
proof -
  have two: "toString_nat 2 = ''2''"
    by (simp add: toString_nat.simps digit_char_def)
  have h: "\<forall>b \<in> set [MOCK_BOT_2 [] ''t'']. \<exists>t < 1700000000000. bot_id b = toString_nat t"
  proof
    fix b assume "b \<in> set [MOCK_BOT_2 [] ''t'']"
    then have "bot_id b = toString_nat 2" by (simp add: MOCK_BOT_2_def two)
    moreover have "(2::nat) < 1700000000000" by simp
    ultimately show "\<exists>t < 1700000000000. bot_id b = toString_nat t" by blast
  qed
  from handleDeployBot_front [of 1700000000000 "''Test Bot''" "''desc''" "''code''"
      "[MOCK_BOT_2 [] ''t'']"] h
  have "bot_id (hd (fst (handleDeployBot 1700000000000 ''Test Bot'' ''desc'' ''code''
       [MOCK_BOT_2 [] ''t''])))
     \<notin> bot_id ` set [MOCK_BOT_2 [] ''t'']"
    by blast
  moreover have "map bot_id (fst (handleDeployBot 1700000000000 ''Test Bot'' ''desc'' ''code''
       [MOCK_BOT_2 [] ''t''])) = [''1700000000000'', ''2'']"
    by (simp add: handleDeployBot_def newBot_def MOCK_BOT_2_def toString_nat.simps digit_char_def)
  moreover have "bot_id (MOCK_BOT_2 [] ''t'') = toString_nat 2"
    by (simp add: MOCK_BOT_2_def two)
  ultimately show ?thesis by simp
qed

text \<open>
  The claim as the specification has it fails: a second deploy at the same clock
  reading gets the identifier of the first.
\<close>

theorem deploy_same_clock_counterexample:
  "bot_id (hd (fst (handleDeployBot 1700000000000 ''B'' ''desc'' ''code''
       (fst (handleDeployBot 1700000000000 ''A'' ''desc'' ''code'' [])))))
     \<in> bot_id ` set (fst (handleDeployBot 1700000000000 ''A'' ''desc'' ''code'' []))"
  by (simp add: handleDeployBot_def newBot_def)

section \<open>Alerts\<close>

lemma truncate_annotated:
  "active_alert.truncate (active_alert.extend a (annotated_alert.fields n)) = (a :: active_alert)"
  by (cases a) (simp add: active_alert.defs annotated_alert.defs)

lemma botName_annotated:
  "botName (active_alert.extend (a :: active_alert) (annotated_alert.fields n)) = n"
  by (cases a) (simp add: active_alert.defs annotated_alert.defs)

text \<open>
  Mock bot 10 is above its drop threshold (PnL percent \<open>-1\<close>, threshold 5) and is
  read with the WARNING PNL alert that is stored with it.
\<close>

lemma mock_bot_10_stored_alert:
  "\<not> pnlPercent (MOCK_BOT_10 [] ''t'') \<le> - 5 \<and>
   map alert_type (allActiveAlerts [MOCK_BOT_10 [] ''t'']) = [PNL] \<and>
   map severity (allActiveAlerts [MOCK_BOT_10 [] ''t'']) = [WARNING]"
  by (simp add: allActiveAlerts_def MOCK_BOT_10_def active_alert.defs annotated_alert.defs)

text \<open>
  C2 (amended). The alerts read for the fleet are the alerts stored with the bots,
  in the order of the store, each with the name of its bot; no threshold is
  evaluated on reading: the result is the same whatever the PnL, the PnL percent
  and the alert configuration of the bots are.
\<close>

theorem allActiveAlerts_stored:
  "map active_alert.truncate (allActiveAlerts bots) = concat (map activeAlerts bots) \<and>
   map botName (allActiveAlerts bots)
     = concat (map (\<lambda>b. replicate (length (activeAlerts b)) (name b)) bots) \<and>
   allActiveAlerts (map (\<lambda>b. b\<lparr>pnl := p b, pnlPercent := q b, alertSettings := s b\<rparr>) bots)
     = allActiveAlerts bots"
proof (intro conjI)
  show "map active_alert.truncate (allActiveAlerts bots) = concat (map activeAlerts bots)"
    by (induction bots) (simp_all add: allActiveAlerts_def comp_def truncate_annotated)
  show "map botName (allActiveAlerts bots)
     = concat (map (\<lambda>b. replicate (length (activeAlerts b)) (name b)) bots)"
    by (induction bots)
       (simp_all add: allActiveAlerts_def comp_def botName_annotated map_replicate_const)
  show "allActiveAlerts (map (\<lambda>b. b\<lparr>pnl := p b, pnlPercent := q b, alertSettings := s b\<rparr>) bots)
     = allActiveAlerts bots"
    by (simp add: allActiveAlerts_def comp_def)
qed

text \<open>
  The claim as the specification has it fails: a deployed bot (threshold 5, no
  stored alert) whose PnL has gone to \<open>-600\<close>, PnL percent \<open>-6\<close>, has no PNL alert.
\<close>

theorem alerts_not_evaluated_counterexample:
  "pnlPercent ((newBot 1700000000000 ''Test Bot'' ''code'')\<lparr>pnl := - 600, pnlPercent := - 6\<rparr>)
     \<le> - 5 \<and>
   pnlDropThreshold (alertSettings
      ((newBot 1700000000000 ''Test Bot'' ''code'')\<lparr>pnl := - 600, pnlPercent := - 6\<rparr>))
     = Finite 5 \<and>
   filter (\<lambda>a. alert_type a = PNL)
     (allActiveAlerts [(newBot 1700000000000 ''Test Bot'' ''code'')\<lparr>pnl := - 600, pnlPercent := - 6\<rparr>])
     = []"
  by (simp add: allActiveAlerts_def newBot_def)


section \<open>PnL and PnL percent\<close>

lemma tickBot_running:
  assumes "status b = RUNNING"
  shows "pnl (fst (tickBot b g)) = toFixed2 (newPnl (pnl b) (g 0) (g (Suc 0))) \<and>
   pnlPercent (fst (tickBot b g)) = toFixed2 (newPercent (newPnl (pnl b) (g 0) (g (Suc 0))))"
  using assms by (simp add: tickBot_def random_def Let_def split_beta)

text \<open>
  The bot at a position of the store is ticked with the generator that the tick of
  the bots before it has left.
\<close>

lemma tick_nth:
  "k < length bots \<Longrightarrow>
   fst (tick bots g) ! k = fst (tickBot (bots ! k) (snd (tick (take k bots) g)))"
proof (induction bots arbitrary: g k)
  case Nil
  then show ?case by simp
next
  case (Cons b rest)
  show ?case
  proof (cases k)
    case 0
    then show ?thesis by (simp add: split_beta Let_def)
  next
    case (Suc i)
    with Cons.prems have i: "i < length rest" by simp
    from Cons.IH [OF i, of "snd (tickBot b g)"] Suc show ?thesis
      by (simp add: split_beta Let_def)
  qed
qed

lemma toggle_keeps_pnl:
  "map (\<lambda>b. (pnl b, pnlPercent b)) (handleToggleBot i bots) = map (\<lambda>b. (pnl b, pnlPercent b)) bots"
  by (induction bots) (simp_all add: handleToggleBot_def)

lemma update_keeps_pnl:
  "u_pnl u = None \<Longrightarrow> u_pnlPercent u = None \<Longrightarrow>
   map (\<lambda>b. (pnl b, pnlPercent b)) (handleUpdateBot i u bots) = map (\<lambda>b. (pnl b, pnlPercent b)) bots"
  by (induction bots) (simp_all add: handleUpdateBot_def spread_updates_def)

lemma saveName_keeps_pnl:
  "map (\<lambda>b. (pnl b, pnlPercent b)) (snd (handleSaveName d bots)) = map (\<lambda>b. (pnl b, pnlPercent b)) bots"
  by (simp add: handleSaveName_def update_keeps_pnl no_updates_def split: option.splits)

lemma saveAlerts_keeps_pnl:
  "map (\<lambda>b. (pnl b, pnlPercent b)) (snd (handleSaveAlerts d bots)) = map (\<lambda>b. (pnl b, pnlPercent b)) bots"
  by (simp add: handleSaveAlerts_def update_keeps_pnl no_updates_def split: option.splits)

text \<open>
  An example of the rounding: from PnL 0 with the draw 0.1875 the volatility is
  1.5, and \<open>(1.5 / 10000) * 100\<close> is the double just below 0.015, so that the PnL
  percent stored is 0.01.
\<close>

lemma newPercent_below_tie:
  "newPnl 0 (3 / 16) (1 / 2) = 3 / 2 \<and>
   toFixed2 (newPercent (3 / 2)) = fl (1 / 100) \<and>
   newPercent (3 / 2) < 15 / 1000"
  by (simp add: newPnl_def newPercent_def toFixed2_def fl_eval)

text \<open>
  C3 (amended). \<open>Deploy\<close> stores PnL 0 and PnL percent 0. A tick on a RUNNING bot
  computes \<open>newPnl\<close>, the sum of the old PnL and the change drawn, in double
  arithmetic, and stores \<open>newPnl\<close> rounded to two places as PnL and
  \<open>(newPnl / 10000) * 100\<close> rounded to two places as PnL percent: the percent is
  derived from the sum before its rounding, not from the PnL stored. The bot at a
  position of the store takes its draws from the generator as the bots before it
  have left it. A tick leaves a bot that is not RUNNING as it is. \<open>ToggleStatus\<close>, \<open>Rename\<close> and
  \<open>UpdateAlertSettings\<close> leave PnL and PnL percent at every position of the store
  as they were, and \<open>Delete\<close> leaves only bots of the store.
\<close>

theorem pnlPercent_maintenance:
  "pnl (hd (fst (handleDeployBot now strategyName description code bots))) = 0 \<and>
   pnlPercent (hd (fst (handleDeployBot now strategyName description code bots))) = 0 \<and>
   (\<forall>k < length bots.
      if status (bots ! k) = RUNNING
      then pnl (fst (tick bots g) ! k)
             = toFixed2 (newPnl (pnl (bots ! k))
                 (snd (tick (take k bots) g) 0) (snd (tick (take k bots) g) (Suc 0))) \<and>
           pnlPercent (fst (tick bots g) ! k)
             = toFixed2 (newPercent (newPnl (pnl (bots ! k))
                 (snd (tick (take k bots) g) 0) (snd (tick (take k bots) g) (Suc 0))))
      else fst (tick bots g) ! k = bots ! k) \<and>
   (status b = RUNNING \<longrightarrow>
      pnl (fst (tickBot b g)) = toFixed2 (newPnl (pnl b) (g 0) (g (Suc 0))) \<and>
      pnlPercent (fst (tickBot b g))
        = toFixed2 (newPercent (newPnl (pnl b) (g 0) (g (Suc 0))))) \<and>
   map (\<lambda>b. (pnl b, pnlPercent b)) (handleToggleBot i bots)
     = map (\<lambda>b. (pnl b, pnlPercent b)) bots \<and>
   map (\<lambda>b. (pnl b, pnlPercent b)) (snd (handleSaveName d bots))
     = map (\<lambda>b. (pnl b, pnlPercent b)) bots \<and>
   map (\<lambda>b. (pnl b, pnlPercent b)) (snd (handleSaveAlerts d bots))
     = map (\<lambda>b. (pnl b, pnlPercent b)) bots \<and>
   set (handleDeleteBot i bots) \<subseteq> set bots"
proof (intro conjI allI impI)
  show "pnl (hd (fst (handleDeployBot now strategyName description code bots))) = 0"
    by (simp add: handleDeployBot_def newBot_def)
  show "pnlPercent (hd (fst (handleDeployBot now strategyName description code bots))) = 0"
    by (simp add: handleDeployBot_def newBot_def)
  show "pnl (fst (tickBot b g)) = toFixed2 (newPnl (pnl b) (g 0) (g (Suc 0)))"
    if "status b = RUNNING" using tickBot_running [OF that] by blast
  show "pnlPercent (fst (tickBot b g))
      = toFixed2 (newPercent (newPnl (pnl b) (g 0) (g (Suc 0))))"
    if "status b = RUNNING" using tickBot_running [OF that] by blast
  show "map (\<lambda>b. (pnl b, pnlPercent b)) (handleToggleBot i bots)
      = map (\<lambda>b. (pnl b, pnlPercent b)) bots"
    by (rule toggle_keeps_pnl)
  show "map (\<lambda>b. (pnl b, pnlPercent b)) (snd (handleSaveName d bots))
      = map (\<lambda>b. (pnl b, pnlPercent b)) bots"
    by (rule saveName_keeps_pnl)
  show "map (\<lambda>b. (pnl b, pnlPercent b)) (snd (handleSaveAlerts d bots))
      = map (\<lambda>b. (pnl b, pnlPercent b)) bots"
    by (rule saveAlerts_keeps_pnl)
  show "set (handleDeleteBot i bots) \<subseteq> set bots"
    by (auto simp add: handleDeleteBot_def)
next
  fix k assume k: "k < length bots"
  show "if status (bots ! k) = RUNNING
      then pnl (fst (tick bots g) ! k)
             = toFixed2 (newPnl (pnl (bots ! k))
                 (snd (tick (take k bots) g) 0) (snd (tick (take k bots) g) (Suc 0))) \<and>
           pnlPercent (fst (tick bots g) ! k)
             = toFixed2 (newPercent (newPnl (pnl (bots ! k))
                 (snd (tick (take k bots) g) 0) (snd (tick (take k bots) g) (Suc 0))))
      else fst (tick bots g) ! k = bots ! k"
  proof (cases "status (bots ! k) = RUNNING")
    case True
    from tickBot_running [OF True, of "snd (tick (take k bots) g)"]
    have "pnl (fst (tick bots g) ! k)
          = toFixed2 (newPnl (pnl (bots ! k))
              (snd (tick (take k bots) g) 0) (snd (tick (take k bots) g) (Suc 0))) \<and>
        pnlPercent (fst (tick bots g) ! k)
          = toFixed2 (newPercent (newPnl (pnl (bots ! k))
              (snd (tick (take k bots) g) 0) (snd (tick (take k bots) g) (Suc 0))))"
      by (simp only: tick_nth [OF k])
    with True show ?thesis by simp
  next
    case False
    with tick_idle_nth [OF k False, of g] show ?thesis by simp
  qed
qed

text \<open>
  A freshly deployed bot and one tick with the draws 255/4096 (volatility
  0.498046875), then 0.5 for the direction, the trade and the ageing: the sum
  0.498046875 is stored as PnL 0.5 and PnL percent 0. A second deployed bot behind
  it takes the fifth draw, 0.1875, and the sixth: its sum 1.5 is stored as PnL 1.5
  and PnL percent 0.01.
\<close>

theorem pnlPercent_maintenance_witness:
  "status (newBot 1700000000000 ''Test Bot'' ''code'') = RUNNING \<and>
   newPnl (pnl (newBot 1700000000000 ''Test Bot'' ''code'')) (255 / 4096) (1 / 2) = 255 / 512 \<and>
   pnl (fst (tickBot (newBot 1700000000000 ''Test Bot'' ''code'')
        (\<lambda>n. if n = 0 then 255 / 4096 else if n = 4 then 3 / 16 else 1 / 2))) = 1 / 2 \<and>
   pnlPercent (fst (tickBot (newBot 1700000000000 ''Test Bot'' ''code'')
        (\<lambda>n. if n = 0 then 255 / 4096 else if n = 4 then 3 / 16 else 1 / 2))) = 0 \<and>
   (1::nat) < length [newBot 1700000000000 ''Test Bot'' ''code'',
                      newBot 1700000000001 ''Second'' ''code''] \<and>
   pnl (fst (tick [newBot 1700000000000 ''Test Bot'' ''code'',
                   newBot 1700000000001 ''Second'' ''code'']
          (\<lambda>n. if n = 0 then 255 / 4096 else if n = 4 then 3 / 16 else 1 / 2)) ! 1) = 3 / 2 \<and>
   pnlPercent (fst (tick [newBot 1700000000000 ''Test Bot'' ''code'',
                          newBot 1700000000001 ''Second'' ''code'']
          (\<lambda>n. if n = 0 then 255 / 4096 else if n = 4 then 3 / 16 else 1 / 2)) ! 1)
     = fl (1 / 100)"
proof -
  let ?A = "newBot 1700000000000 ''Test Bot'' ''code''"
  let ?B = "newBot 1700000000001 ''Second'' ''code''"
  let ?g = "\<lambda>n::nat. if n = 0 then 255 / 4096 else if n = 4 then 3 / 16 else (1 / 2 :: rat)"
  have h: "status ?A = RUNNING" by (simp add: newBot_def)
  have p: "pnl ?A = 0" "pnl ?B = 0" by (simp_all add: newBot_def)
  have u: "newPnl 0 (255 / 4096) (1 / 2) = 255 / 512" "newPnl 0 (3 / 16) (1 / 2) = 3 / 2"
    by (simp_all add: newPnl_def fl_eval)
  have r: "toFixed2 (255 / 512) = 1 / 2" "toFixed2 (newPercent (255 / 512)) = 0"
    "toFixed2 (3 / 2) = 3 / 2" "toFixed2 (newPercent (3 / 2)) = fl (1 / 100)"
    by (simp_all add: newPercent_def toFixed2_def fl_eval)
  note inst = pnlPercent_maintenance
    [where b = ?A and g = ?g and bots = "[?A, ?B]"]
  from inst h
  have one: "pnl (fst (tickBot ?A ?g)) = toFixed2 (newPnl (pnl ?A) (255 / 4096) (1 / 2)) \<and>
    pnlPercent (fst (tickBot ?A ?g)) = toFixed2 (newPercent (newPnl (pnl ?A) (255 / 4096) (1 / 2)))"
    by simp
  have len: "(1::nat) < length [?A, ?B]" by simp
  have run: "status ([?A, ?B] ! 1) = RUNNING" by (simp add: newBot_def)
  have thr: "fl (19 / 20) = 4278419646001971 / 4503599627370496"
    "fl (9 / 10) = 8106479329266893 / 9007199254740992"
    by (simp_all add: fl_eval)
  have left: "snd (tick (take 1 [?A, ?B]) ?g) = (\<lambda>n. ?g (Suc (Suc (Suc (Suc n)))))"
    by (simp add: tickBot_def random_def Let_def split_beta h thr)
  from inst len run
  have "pnl (fst (tick [?A, ?B] ?g) ! 1)
      = toFixed2 (newPnl (pnl ([?A, ?B] ! 1))
          (snd (tick (take 1 [?A, ?B]) ?g) 0) (snd (tick (take 1 [?A, ?B]) ?g) (Suc 0))) \<and>
    pnlPercent (fst (tick [?A, ?B] ?g) ! 1)
      = toFixed2 (newPercent (newPnl (pnl ([?A, ?B] ! 1))
          (snd (tick (take 1 [?A, ?B]) ?g) 0) (snd (tick (take 1 [?A, ?B]) ?g) (Suc 0))))"
    by presburger
  then have two: "pnl (fst (tick [?A, ?B] ?g) ! 1) = 3 / 2 \<and>
      pnlPercent (fst (tick [?A, ?B] ?g) ! 1) = fl (1 / 100)"
    unfolding left by (simp add: p u r)
  from one two h len show ?thesis by (simp add: p u r)
qed

text \<open>
  The claim as the specification has it fails. After \<open>ToggleStatus\<close> on mock bot 2
  the bot has PnL \<open>-45.20\<close> and PnL percent \<open>-0.8\<close>, which is not the PnL over
  10000 times 100 rounded to two places (\<open>-0.45\<close>) and is more than 0.3 away from
  the unrounded quotient. After the tick above the bot has PnL \<open>0.5\<close> and PnL
  percent \<open>0\<close>, where \<open>(0.5 / 10000) * 100\<close> rounded to two places is \<open>0.01\<close>.
\<close>

theorem stale_percent_counterexample:
  "pnlPercent (hd (handleToggleBot ''2'' [MOCK_BOT_2 [] ''t'']))
     \<noteq> toFixed2 (newPercent (pnl (hd (handleToggleBot ''2'' [MOCK_BOT_2 [] ''t''])))) \<and>
   3 / 10 < \<bar>pnlPercent (hd (handleToggleBot ''2'' [MOCK_BOT_2 [] ''t'']))
            - pnl (hd (handleToggleBot ''2'' [MOCK_BOT_2 [] ''t''])) / 10000 * 100\<bar> \<and>
   pnlPercent (hd (fst (tick [newBot 1700000000000 ''Test Bot'' ''code'']
        (\<lambda>n. if n = 0 then 255 / 4096 else 1 / 2))))
     \<noteq> toFixed2 (newPercent (pnl (hd (fst (tick [newBot 1700000000000 ''Test Bot'' ''code'']
        (\<lambda>n. if n = 0 then 255 / 4096 else 1 / 2))))))"
proof (intro conjI)
  have m: "pnl (MOCK_BOT_2 [] ''t'') = - 3180667236830413 / 70368744177664"
    "pnlPercent (MOCK_BOT_2 [] ''t'') = - 3602879701896397 / 4503599627370496"
    by (simp_all add: MOCK_BOT_2_def fl_eval)
  have t: "hd (handleToggleBot ''2'' [MOCK_BOT_2 [] ''t''])
      = (MOCK_BOT_2 [] ''t'')\<lparr>status := RUNNING\<rparr>"
    by (simp add: handleToggleBot_def MOCK_BOT_2_def)
  show "pnlPercent (hd (handleToggleBot ''2'' [MOCK_BOT_2 [] ''t'']))
     \<noteq> toFixed2 (newPercent (pnl (hd (handleToggleBot ''2'' [MOCK_BOT_2 [] ''t'']))))"
    by (simp add: t m newPercent_def toFixed2_def fl_eval)
  show "3 / 10 < \<bar>pnlPercent (hd (handleToggleBot ''2'' [MOCK_BOT_2 [] ''t'']))
            - pnl (hd (handleToggleBot ''2'' [MOCK_BOT_2 [] ''t''])) / 10000 * 100\<bar>"
    by (simp add: t m)
  have u: "newPnl 0 (255 / 4096) (1 / 2) = 255 / 512"
    by (simp add: newPnl_def fl_eval)
  have r: "toFixed2 (255 / 512) = 1 / 2" "toFixed2 (newPercent (255 / 512)) = 0"
    "toFixed2 (newPercent (1 / 2)) \<noteq> 0"
    by (simp_all add: newPercent_def toFixed2_def fl_eval)
  show "pnlPercent (hd (fst (tick [newBot 1700000000000 ''Test Bot'' ''code'']
        (\<lambda>n. if n = 0 then 255 / 4096 else 1 / 2))))
     \<noteq> toFixed2 (newPercent (pnl (hd (fst (tick [newBot 1700000000000 ''Test Bot'' ''code'']
        (\<lambda>n. if n = 0 then 255 / 4096 else 1 / 2))))))"
    by (simp add: tickBot_def newBot_def random_def Let_def split_beta u r)
qed

end
